theory Spec2Isabelle
  imports Main "HOL-Library.Sublist"
begin

section \<open>JavaScript values\<close>

text \<open>
  The inbox extension works on JSON data: raw records fetched from a snapshot file or
  from the portal Web API, and the configuration object handed to \<^verbatim>\<open>Data.init\<close>.
  A value is one of the JSON kinds, or \<^verbatim>\<open>undefined\<close>.

  \<^item> \<open>JNum\<close> holds an integral number, of a size that prints in plain decimal;
    fractional numbers are not modelled. Strings hold ASCII text.
  \<^item> \<open>JDate t\<close> is the date-time string that denotes the instant \<open>t\<close>, in milliseconds
    since the epoch, with the text that \<^verbatim>\<open>Date.prototype.toISOString\<close> produces for it.
    \<open>JStr s\<close> is every other string: \<^verbatim>\<open>new Date(s)\<close> is an Invalid Date for it.
  \<^item> \<open>JObj\<close> lists the own properties of an object; the first binding of a key counts.
    Members inherited from \<^verbatim>\<open>Object.prototype\<close> are not modelled.
\<close>

datatype jsval =
    JUndefined
  | JNull
  | JBool bool
  | JNum int
  | JStr string
  | JDate int
  | JArr "jsval list"
  | JObj "(string \<times> jsval) list"

text \<open>What the code throws. \<open>TypeError\<close> is the runtime's own error (a property read on
  \<^verbatim>\<open>null\<close> or \<^verbatim>\<open>undefined\<close>, a call of something that is not a function); every
  other constructor is one \<^verbatim>\<open>throw new Error(...)\<close> of the source.\<close>

datatype error =
    TypeError
  | ReadNotEnabled
  | CreateNotEnabled
  | CreatedByNotFound
  | PartiesNotFound
  | ContactPartyNotFound
  | ContactIdNotFound
  | StaffNameNotFound
  | OriginalNotFound
  | ReplyContactIdNotFound
  | ReplyStaffIdNotFound
  | TokenError
  | NetworkError
  | HttpError nat string

definition truthy :: "jsval \<Rightarrow> bool" where
  "truthy v = (case v of
      JUndefined \<Rightarrow> False
    | JNull \<Rightarrow> False
    | JBool b \<Rightarrow> b
    | JNum n \<Rightarrow> n \<noteq> 0
    | JStr s \<Rightarrow> s \<noteq> []
    | _ \<Rightarrow> True)"

definition nullish :: "jsval \<Rightarrow> bool" where
  "nullish v = (v = JUndefined \<or> v = JNull)"

text \<open>\<^verbatim>\<open>a || b\<close>\<close>

definition js_or :: "jsval \<Rightarrow> jsval \<Rightarrow> jsval" where
  "js_or a b = (if truthy a then a else b)"

text \<open>\<^verbatim>\<open>a === b\<close>. Two objects or arrays are equal only when they are the same object;
  the model does not track identity, so it answers \<open>False\<close> for them.\<close>

definition strict_eq :: "jsval \<Rightarrow> jsval \<Rightarrow> bool" where
  "strict_eq a b = (case a of
      JArr _ \<Rightarrow> False
    | JObj _ \<Rightarrow> False
    | _ \<Rightarrow> a = b)"

subsection \<open>Conversion to string\<close>

fun digits :: "nat \<Rightarrow> string" where
  "digits n = (if n < 10 then [''0123456789'' ! n]
               else digits (n div 10) @ [''0123456789'' ! (n mod 10)])"

declare digits.simps [simp del]

definition pad :: "nat \<Rightarrow> int \<Rightarrow> string" where
  "pad k n = replicate (k - length (digits (nat n))) (CHR ''0'') @ digits (nat n)"

text \<open>The civil date of a day number (days since 1970-01-01), in the proleptic Gregorian
  calendar: year, month, day.\<close>

definition civil_from_days :: "int \<Rightarrow> int \<times> int \<times> int" where
  "civil_from_days z0 =
     (let z = z0 + 719468;
          era = z div 146097;
          doe = z - era * 146097;
          yoe = (doe - doe div 1460 + doe div 36524 - doe div 146096) div 365;
          doy = doe - (365 * yoe + yoe div 4 - yoe div 100);
          mp = (5 * doy + 2) div 153;
          d = doy - (153 * mp + 2) div 5 + 1;
          m = (if mp < 10 then mp + 3 else mp - 9);
          y = yoe + era * 400 + (if m \<le> 2 then 1 else 0)
      in (y, m, d))"

text \<open>\<^verbatim>\<open>new Date(t).toISOString()\<close>: \<^verbatim>\<open>YYYY-MM-DDTHH:mm:ss.sssZ\<close>, the year with a sign
  and six digits outside 0..9999.\<close>

definition toISOString :: "int \<Rightarrow> string" where
  "toISOString t =
     (let (y, m, d) = civil_from_days (t div 86400000);
          r = t mod 86400000;
          year = (if 0 \<le> y \<and> y \<le> 9999 then pad 4 y
                  else (if y < 0 then ''-'' else ''+'') @ pad 6 \<bar>y\<bar>)
      in year @ ''-'' @ pad 2 m @ ''-'' @ pad 2 d @ ''T'' @ pad 2 (r div 3600000) @ '':''
         @ pad 2 (r div 60000 mod 60) @ '':'' @ pad 2 (r div 1000 mod 60) @ ''.''
         @ pad 3 (r mod 1000) @ ''Z'')"

fun join :: "string \<Rightarrow> string list \<Rightarrow> string" where
  "join sep [] = []"
| "join sep [x] = x"
| "join sep (x # y # ys) = x @ sep @ join sep (y # ys)"

text \<open>\<^verbatim>\<open>String(v)\<close>, as a template literal and a property key apply it. In an array,
  \<^verbatim>\<open>null\<close> and \<^verbatim>\<open>undefined\<close> elements give the empty string.\<close>

fun to_string :: "jsval \<Rightarrow> string" where
  "to_string JUndefined = ''undefined''"
| "to_string JNull = ''null''"
| "to_string (JBool b) = (if b then ''true'' else ''false'')"
| "to_string (JNum n) = (if n < 0 then ''-'' @ digits (nat (- n)) else digits (nat n))"
| "to_string (JStr s) = s"
| "to_string (JDate t) = toISOString t"
| "to_string (JArr xs) =
     join '','' (map (\<lambda>x. if x = JUndefined \<or> x = JNull then [] else to_string x) xs)"
| "to_string (JObj kvs) = ''[object Object]''"

subsection \<open>Property access\<close>

text \<open>\<^verbatim>\<open>v.k\<close> and \<^verbatim>\<open>v[k]\<close> for a \<open>v\<close> that is neither \<^verbatim>\<open>null\<close> nor \<^verbatim>\<open>undefined\<close>
  (there the runtime throws, and every caller below checks \<open>nullish\<close> first).\<close>

definition js_get :: "jsval \<Rightarrow> string \<Rightarrow> jsval" where
  "js_get v k = (case v of
      JObj kvs \<Rightarrow> (case map_of kvs k of None \<Rightarrow> JUndefined | Some x \<Rightarrow> x)
    | JArr xs \<Rightarrow> (if k = ''length'' then JNum (int (length xs)) else JUndefined)
    | JStr s \<Rightarrow> (if k = ''length'' then JNum (int (length s)) else JUndefined)
    | JDate t \<Rightarrow> (if k = ''length'' then JNum (int (length (toISOString t))) else JUndefined)
    | _ \<Rightarrow> JUndefined)"

text \<open>\<^verbatim>\<open>v?.k\<close>\<close>

definition js_get_opt :: "jsval \<Rightarrow> string \<Rightarrow> jsval" where
  "js_get_opt v k = (if nullish v then JUndefined else js_get v k)"

section \<open>Configuration lookups\<close>

text \<open>\<^verbatim>\<open>Data.getFieldName(fieldKey)\<close>; the first argument is \<^verbatim>\<open>this.config\<close>.\<close>

definition getFieldName :: "jsval \<Rightarrow> string \<Rightarrow> error + jsval" where
  "getFieldName config fieldKey =
     (if nullish config then Inl TypeError
      else
        let mapping = js_or (js_get_opt (js_get config ''portalDataSource'') ''fieldMapping'') (JObj []);
            prefix = js_or (js_get_opt (js_get config ''publisher'') ''prefix'') (JStr ''msfed'')
        in Inr (js_or (js_get mapping fieldKey) (JStr (to_string prefix @ ''_'' @ fieldKey))))"

record regarding_config =
  entityName :: jsval
  entitySetName :: jsval
  navigationProperty :: jsval

text \<open>\<^verbatim>\<open>Data.getRegardingObjectConfig()\<close>\<close>

definition getRegardingObjectConfig :: "jsval \<Rightarrow> error + regarding_config" where
  "getRegardingObjectConfig config =
     (if nullish config then Inl TypeError
      else
        let defaultConfig = js_or (js_get_opt (js_get config ''portalDataSource'') ''regardingObject'') (JObj []);
            prefix = js_or (js_get_opt (js_get config ''publisher'') ''prefix'') (JStr ''msfed'')
        in Inr \<lparr> entityName = js_or (js_get defaultConfig ''entityName'')
                                   (JStr (to_string prefix @ ''_application'')),
                 entitySetName = js_or (js_get defaultConfig ''entitySetName'')
                                   (JStr (to_string prefix @ ''_applications'')),
                 navigationProperty = js_or (js_get defaultConfig ''navigationProperty'')
                                   (JStr (''regardingobjectid_'' @ to_string prefix @ ''_application'')) \<rparr>)"

section \<open>Dates and the persisted timestamp\<close>

text \<open>The time value of \<^verbatim>\<open>new Date(v)\<close>; \<open>None\<close> is the Invalid Date, whose time
  value is \<^verbatim>\<open>NaN\<close>. An array or an object in a date position counts as unparseable.\<close>

definition new_Date :: "jsval \<Rightarrow> int option" where
  "new_Date v = (case v of
      JDate t \<Rightarrow> Some t
    | JNum n \<Rightarrow> (if \<bar>n\<bar> \<le> 8640000000000000 then Some n else None)
    | JNull \<Rightarrow> Some 0
    | JBool b \<Rightarrow> Some (if b then 1 else 0)
    | _ \<Rightarrow> None)"

text \<open>\<^verbatim>\<open>a <= b\<close> and \<^verbatim>\<open>a > b\<close> on two Date objects: both are false as soon as one
  side is invalid.\<close>

definition date_le :: "int option \<Rightarrow> int option \<Rightarrow> bool" where
  "date_le a b = (case a of None \<Rightarrow> False
                  | Some x \<Rightarrow> (case b of None \<Rightarrow> False | Some y \<Rightarrow> x \<le> y))"

definition date_gt :: "int option \<Rightarrow> int option \<Rightarrow> bool" where
  "date_gt a b = (case a of None \<Rightarrow> False
                  | Some x \<Rightarrow> (case b of None \<Rightarrow> False | Some y \<Rightarrow> x > y))"

text \<open>
  The browser's \<^verbatim>\<open>localStorage\<close> entry \<^verbatim>\<open>portalInbox_lastCheckedComments\<close>. The code
  only ever writes the \<^verbatim>\<open>toISOString\<close> text of an instant there, so the model keeps the
  instant: \<open>None\<close> is a missing entry, \<open>Some t\<close> the stored text of \<open>t\<close>.

  \<open>lastCheckedDate\<close> is the expression
  \<^verbatim>\<open>lastChecked ? new Date(lastChecked) : new Date(0)\<close> that every reader of the entry uses.
\<close>

type_synonym storage = "int option"

definition lastCheckedDate :: "storage \<Rightarrow> int" where
  "lastCheckedDate store = (case store of None \<Rightarrow> 0 | Some t \<Rightarrow> t)"

section \<open>Mapping raw records to messages\<close>

text \<open>The object literal that the mapper returns. A legacy message has no metadata
  properties: reading one gives \<^verbatim>\<open>undefined\<close>, which is what the record holds then.\<close>

record message =
  msg_id :: jsval
  msg_from :: jsval
  subject :: jsval
  body :: jsval
  date :: jsval
  read :: jsval
  category :: jsval
  regardingObjectId :: jsval
  toContact :: jsval
  toContactId :: jsval
  fromStaffId :: jsval
  directionCode :: jsval
  statecode :: jsval
  statuscode :: jsval
  hasReadValue :: jsval

text \<open>The test of the legacy branch:
  \<^verbatim>\<open>comment.from && comment.body && !comment.activityid\<close>.\<close>

definition isLegacy :: "jsval \<Rightarrow> bool" where
  "isLegacy comment =
     (truthy (js_get comment ''from'') \<and> truthy (js_get comment ''body'')
      \<and> \<not> truthy (js_get comment ''activityid''))"

text \<open>The callback of \<^verbatim>\<open>parties.find\<close>; it throws on an element that is
  \<^verbatim>\<open>null\<close> or \<^verbatim>\<open>undefined\<close>.\<close>

definition isRecipient :: "jsval \<Rightarrow> bool" where
  "isRecipient p =
     (strict_eq (js_get p ''participationtypemask'') (JNum 2)
      \<and> js_get p ''partyid_contact'' \<noteq> JNull
      \<and> js_get p ''partyid_contact'' \<noteq> JUndefined)"

fun findParty :: "jsval list \<Rightarrow> error + jsval option" where
  "findParty [] = Inr None"
| "findParty (p # ps) =
     (if nullish p then Inl TypeError
      else if isRecipient p then Inr (Some p)
      else findParty ps)"

text \<open>\<^verbatim>\<open>parties.find(...)\<close> on a value that passed the emptiness check: only an array
  has a \<^verbatim>\<open>find\<close> method.\<close>

definition partiesFind :: "jsval \<Rightarrow> error + jsval option" where
  "partiesFind parties = (case parties of JArr ps \<Rightarrow> findParty ps | _ \<Rightarrow> Inl TypeError)"

text \<open>The date that the fallback compares:
  \<^verbatim>\<open>new Date(comment.createdon || comment.date || new Date())\<close>.\<close>

definition createdDate :: "int \<Rightarrow> jsval \<Rightarrow> int option" where
  "createdDate now comment =
     (let v = js_or (js_get comment ''createdon'') (js_get comment ''date'')
      in if truthy v then new_Date v else Some now)"

text \<open>The object that the legacy branch returns.\<close>

definition legacyMessage :: "jsval \<Rightarrow> message" where
  "legacyMessage comment =
     \<lparr> msg_id = js_get comment ''id'',
       msg_from = js_get comment ''from'',
       subject = js_or (js_get comment ''subject'') (JStr ''(No Subject)''),
       body = js_or (js_get comment ''body'') (JStr []),
       date = js_get comment ''date'',
       read = (if js_get comment ''read'' \<noteq> JUndefined then js_get comment ''read''
               else JBool False),
       category = js_or (js_get comment ''category'') (JStr ''general''),
       regardingObjectId = JUndefined, toContact = JUndefined, toContactId = JUndefined,
       fromStaffId = JUndefined, directionCode = JUndefined, statecode = JUndefined,
       statuscode = JUndefined, hasReadValue = JUndefined \<rparr>"

text \<open>The variable \<^verbatim>\<open>isRead\<close> of the relationship branch: the server's field when it
  is there, else the comparison with the persisted instant. \<open>now\<close> is the clock, read by
  \<^verbatim>\<open>new Date()\<close>.\<close>

definition isReadOf :: "storage \<Rightarrow> int \<Rightarrow> jsval \<Rightarrow> jsval \<Rightarrow> jsval" where
  "isReadOf store now comment hasReadField =
     (if js_get comment (to_string hasReadField) \<noteq> JUndefined
         \<and> js_get comment (to_string hasReadField) \<noteq> JNull
      then js_get comment (to_string hasReadField)
      else JBool (date_le (createdDate now comment) (Some (lastCheckedDate store))))"

text \<open>The object that the relationship branch returns.\<close>

definition relationshipMessage :: "int \<Rightarrow> jsval \<Rightarrow> jsval \<Rightarrow> jsval \<Rightarrow> jsval \<Rightarrow> message" where
  "relationshipMessage now comment toParty hasReadField isRead =
     \<lparr> msg_id = js_get comment ''activityid'',
       msg_from = js_get comment ''_createdby_value@OData.Community.Display.V1.FormattedValue'',
       subject = js_or (js_get comment ''subject'') (JStr ''(No Subject)''),
       body = js_or (js_get comment ''description'') (JStr []),
       date = js_or (js_get comment ''createdon'') (JDate now),
       read = isRead,
       category = JStr ''portal-comment'',
       regardingObjectId = js_get comment ''_regardingobjectid_value'',
       toContact = js_get (js_get toParty ''partyid_contact'') ''fullname'',
       toContactId = js_get (js_get toParty ''partyid_contact'') ''contactid'',
       fromStaffId = js_get comment ''_createdby_value'',
       directionCode = js_get comment ''adx_portalcommentdirectioncode'',
       statecode = js_get comment ''statecode'',
       statuscode = js_get comment ''statuscode'',
       hasReadValue = js_get comment (to_string hasReadField) \<rparr>"

text \<open>The body of the arrow function in \<^verbatim>\<open>mapPortalDataToMessages\<close>, for one
  record. The clock is read up to twice in one call; both reads give \<open>now\<close>.\<close>

definition mapComment :: "jsval \<Rightarrow> storage \<Rightarrow> int \<Rightarrow> jsval \<Rightarrow> error + message" where
  "mapComment config store now comment =
     (if nullish comment then Inl TypeError
      else if isLegacy comment then Inr (legacyMessage comment)
      else if \<not> truthy (js_get comment ''_createdby_value'') then Inl CreatedByNotFound
      else
        let parties = js_get comment ''adx_portalcomment_activity_parties'' in
        if \<not> truthy parties \<or> strict_eq (js_get parties ''length'') (JNum 0)
        then Inl PartiesNotFound
        else (case partiesFind parties of
            Inl e \<Rightarrow> Inl e
          | Inr None \<Rightarrow> Inl ContactPartyNotFound
          | Inr (Some toParty) \<Rightarrow>
             (case getFieldName config ''hasread'' of
                Inl e \<Rightarrow> Inl e
              | Inr hasReadField \<Rightarrow>
                 let isRead = isReadOf store now comment hasReadField in
                 if \<not> truthy (js_get (js_get toParty ''partyid_contact'') ''contactid'')
                 then Inl ContactIdNotFound
                 else if \<not> truthy (js_get comment
                           ''_createdby_value@OData.Community.Display.V1.FormattedValue'')
                 then Inl StaffNameNotFound
                 else Inr (relationshipMessage now comment toParty hasReadField isRead))))"

text \<open>\<^verbatim>\<open>Array.prototype.map\<close> with a callback that may throw: the first throw ends the
  whole call.\<close>

fun arrayMap :: "('a \<Rightarrow> error + 'b) \<Rightarrow> 'a list \<Rightarrow> error + 'b list" where
  "arrayMap f [] = Inr []"
| "arrayMap f (x # xs) =
     (case f x of
        Inl e \<Rightarrow> Inl e
      | Inr y \<Rightarrow> (case arrayMap f xs of Inl e \<Rightarrow> Inl e | Inr ys \<Rightarrow> Inr (y # ys)))"

text \<open>\<^verbatim>\<open>Data.mapPortalDataToMessages(records)\<close>: \<^verbatim>\<open>records.map\<close> exists on arrays
  only.\<close>

definition mapPortalDataToMessages :: "jsval \<Rightarrow> storage \<Rightarrow> int \<Rightarrow> jsval \<Rightarrow> error + message list" where
  "mapPortalDataToMessages config store now records =
     (case records of
        JArr rs \<Rightarrow> arrayMap (mapComment config store now) rs
      | _ \<Rightarrow> Inl TypeError)"

section \<open>The widget state\<close>

text \<open>\<^verbatim>\<open>Data.state\<close>. The fields \<^verbatim>\<open>replyMode\<close> and \<^verbatim>\<open>currentMessage\<close> belong to the
  modal dialog and are left out.\<close>

record state =
  messages :: "message list"
  unreadCount :: nat
  showArchived :: bool
  isLoading :: bool
  isLoaded :: bool

definition initial_state :: state where
  "initial_state = \<lparr> messages = [], unreadCount = 0, showArchived = False,
                      isLoading = False, isLoaded = False \<rparr>"

text \<open>\<^verbatim>\<open>Data.getMessage(messageId)\<close>\<close>

definition getMessage :: "message list \<Rightarrow> jsval \<Rightarrow> message option" where
  "getMessage msgs messageId = find (\<lambda>msg. strict_eq (msg_id msg) messageId) msgs"

text \<open>The callback of \<^verbatim>\<open>readMessages.reduce\<close>, which is called without an initial value:
  the first element starts as \<open>latest\<close>.\<close>

definition laterOf :: "message \<Rightarrow> message \<Rightarrow> message" where
  "laterOf latest msg =
     (if date_gt (new_Date (date msg)) (new_Date (date latest)) then msg else latest)"

text \<open>\<^verbatim>\<open>Data.processMessages()\<close>\<close>

definition processMessages :: "state \<Rightarrow> storage \<Rightarrow> state \<times> storage" where
  "processMessages st store =
     (let st' = st\<lparr> unreadCount := length (filter (\<lambda>msg. \<not> truthy (read msg)) (messages st)) \<rparr>;
          readMessages = filter (\<lambda>msg. truthy (read msg) \<and> truthy (date msg)) (messages st)
      in case readMessages of
           [] \<Rightarrow> (st', store)
         | m # ms \<Rightarrow>
            let mostRecentRead = foldl laterOf m ms;
                mostRecentReadDate = new_Date (date mostRecentRead)
            in if date_gt mostRecentReadDate (Some (lastCheckedDate store))
               then (st', mostRecentReadDate)
               else (st', store))"

text \<open>\<^verbatim>\<open>Data.getFilteredMessages()\<close> and \<^verbatim>\<open>Data.toggleView()\<close>\<close>

definition getFilteredMessages :: "state \<Rightarrow> message list" where
  "getFilteredMessages st =
     (if showArchived st then filter (\<lambda>msg. truthy (read msg)) (messages st)
      else filter (\<lambda>msg. \<not> truthy (read msg)) (messages st))"

definition toggleView :: "state \<Rightarrow> state" where
  "toggleView st = st\<lparr> showArchived := \<not> showArchived st \<rparr>"

section \<open>The environment\<close>

record location =
  hostname :: string
  protocol :: string

text \<open>\<^verbatim>\<open>Data.isLocalEnvironment()\<close>, on \<^verbatim>\<open>window.location\<close>.\<close>

definition isLocalEnvironment :: "location \<Rightarrow> bool" where
  "isLocalEnvironment loc =
     (hostname loc = ''localhost'' \<or> hostname loc = ''127.0.0.1''
      \<or> prefix ''192.168.'' (hostname loc) \<or> prefix ''10.'' (hostname loc)
      \<or> suffix ''.local'' (hostname loc) \<or> protocol loc = ''file:'')"

text \<open>
  A request handed to \<^verbatim>\<open>fetch\<close>: the method, the path, the query parameters in the order
  in which they were appended (before URL encoding), the token header, and the object that
  is serialised into the body (\<open>JUndefined\<close> when there is none).

  What comes back: the promise of \<^verbatim>\<open>fetch\<close> rejects, or there is a response with a
  status, a body text and, when the text is JSON, its value. \<^verbatim>\<open>response.ok\<close> is a status
  from 200 to 299.
\<close>

record request =
  req_method :: string
  req_url :: string
  req_params :: "(string \<times> string) list"
  req_token :: string
  req_body :: jsval

datatype response = FetchRejected | Response nat string "jsval option"

definition ok :: "nat \<Rightarrow> bool" where
  "ok status = (200 \<le> status \<and> status \<le> 299)"

text \<open>What an asynchronous operation leaves behind: how its promise settles (\<open>Inl\<close> is a
  rejection), the requests it sent, and the entry it wrote to the log on its way out (the
  early return, the \<^verbatim>\<open>catch\<close> block or the success; diagnostic entries before that
  are left out).\<close>

datatype log_entry = Log string | ErrorLog error

record 'a outcome =
  settled :: "error + 'a"
  requests :: "request list"
  logged :: "log_entry list"

section \<open>Reading from the Web API\<close>

text \<open>The text of the \<^verbatim>\<open>$filter\<close> parameter: \<^verbatim>\<open>filterParts.join(" and ")\<close>.\<close>

definition readFilter :: "jsval \<Rightarrow> string" where
  "readFilter readOps =
     join '' and ''
       (''adx_portalcommentdirectioncode eq 2''
        # (if truthy (js_get readOps ''filter'')
           then [''('' @ to_string (js_get readOps ''filter'') @ '')''] else []))"

text \<open>The \<^verbatim>\<open>URLSearchParams\<close> that \<^verbatim>\<open>loadMessagesFromPortal\<close> fills.\<close>

definition readParams :: "jsval \<Rightarrow> (string \<times> string) list" where
  "readParams readOps =
     (if truthy (js_get readOps ''select'')
      then [(''$select'', to_string (js_get readOps ''select''))] else [])
     @ [(''$filter'', readFilter readOps)]
     @ (if truthy (js_get readOps ''orderBy'')
        then [(''$orderby'', to_string (js_get readOps ''orderBy''))] else [])
     @ (if truthy (js_get readOps ''expand'')
        then [(''$expand'', to_string (js_get readOps ''expand''))] else [])"

text \<open>The query of \<^verbatim>\<open>loadMessagesFromPortal\<close>, up to the call of \<^verbatim>\<open>fetch\<close>: the request
  it sends, or the error thrown before.\<close>

definition readRequest :: "jsval \<Rightarrow> error + string \<Rightarrow> error + request" where
  "readRequest config token =
     (if nullish config then Inl TypeError
      else let cfg = js_get config ''portalDataSource'' in
      if nullish cfg then Inl TypeError
      else if nullish (js_get cfg ''operations'') then Inl TypeError
      else let readOps = js_get (js_get cfg ''operations'') ''read'' in
      if nullish readOps then Inl TypeError
      else if \<not> truthy (js_get readOps ''enabled'') then Inl ReadNotEnabled
      else (case token of
          Inl e \<Rightarrow> Inl e
        | Inr tok \<Rightarrow>
            Inr \<lparr> req_method = ''GET'',
                  req_url = to_string (js_get cfg ''baseUrl'') @ ''/''
                            @ to_string (js_get cfg ''entitySetName''),
                  req_params = readParams readOps,
                  req_token = tok,
                  req_body = JUndefined \<rparr>))"

text \<open>The end of a load, shared by both sources: the mapped records replace the
  messages and \<^verbatim>\<open>processMessages\<close> runs; when the mapper throws, the assignment does not
  happen and the \<^verbatim>\<open>catch\<close> only resets the flags.\<close>

definition loadRecords :: "jsval \<Rightarrow> int \<Rightarrow> jsval \<Rightarrow> state \<Rightarrow> storage \<Rightarrow> state \<times> storage" where
  "loadRecords config now records st store =
     (case mapPortalDataToMessages config store now records of
        Inl e \<Rightarrow> (st\<lparr> isLoading := False, isLoaded := True \<rparr>, store)
      | Inr msgs \<Rightarrow>
          (case processMessages (st\<lparr> messages := msgs \<rparr>) store of
             (st', store') \<Rightarrow> (st'\<lparr> isLoading := False, isLoaded := True \<rparr>, store')))"

text \<open>The rows of a response body: \<^verbatim>\<open>data.value || []\<close> for the Web API, and
  \<^verbatim>\<open>data.value || data.messages || []\<close> for the snapshot, which holds them under
  \<^verbatim>\<open>value\<close> or under \<^verbatim>\<open>messages\<close>.\<close>

definition portalRecords :: "jsval \<Rightarrow> jsval" where
  "portalRecords data = js_or (js_get data ''value'') (JArr [])"

definition localRecords :: "jsval \<Rightarrow> jsval" where
  "localRecords data = js_or (js_or (js_get data ''value'') (js_get data ''messages'')) (JArr [])"

text \<open>\<^verbatim>\<open>Data.loadMessagesFromPortal()\<close>, with the token and the response that the host
  gives.\<close>

definition loadMessagesFromPortal ::
  "jsval \<Rightarrow> error + string \<Rightarrow> response \<Rightarrow> int \<Rightarrow> state \<Rightarrow> storage \<Rightarrow> state \<times> storage" where
  "loadMessagesFromPortal config token resp now st store =
     (case readRequest config token of
        Inl e \<Rightarrow> (st\<lparr> isLoading := False, isLoaded := True \<rparr>, store)
      | Inr req \<Rightarrow>
         (case resp of
            Response status txt (Some data) \<Rightarrow>
              if ok status \<and> \<not> nullish data
              then loadRecords config now (portalRecords data) st store
              else (st\<lparr> isLoading := False, isLoaded := True \<rparr>, store)
          | _ \<Rightarrow> (st\<lparr> isLoading := False, isLoaded := True \<rparr>, store)))"

text \<open>\<^verbatim>\<open>Data.loadMessagesFromLocal()\<close>, with the response to the request for the
  snapshot file.\<close>

definition loadMessagesFromLocal ::
  "jsval \<Rightarrow> response \<Rightarrow> int \<Rightarrow> state \<Rightarrow> storage \<Rightarrow> state \<times> storage" where
  "loadMessagesFromLocal config resp now st store =
     (case resp of
        Response status txt (Some data) \<Rightarrow>
          if ok status \<and> \<not> nullish data
          then loadRecords config now (localRecords data) st store
          else (st\<lparr> isLoading := False, isLoaded := True \<rparr>, store)
      | _ \<Rightarrow> (st\<lparr> isLoading := False, isLoaded := True \<rparr>, store))"

text \<open>\<^verbatim>\<open>Data.loadMessages()\<close>: the choice of the source. With no source at all the flags
  are reset and the error is rendered; with no configuration object the property read
  throws right after the flags were set.\<close>

definition loadMessages ::
  "jsval \<Rightarrow> location \<Rightarrow> error + string \<Rightarrow> response \<Rightarrow> int \<Rightarrow> state \<Rightarrow> storage \<Rightarrow> state \<times> storage" where
  "loadMessages config loc token resp now st0 store =
     (let st = st0\<lparr> isLoading := True, isLoaded := False \<rparr>;
          isLocal = isLocalEnvironment loc
      in if nullish config then (st, store)
         else if isLocal \<and> truthy (js_get config ''localDataSource'')
           then loadMessagesFromLocal config resp now st store
         else if \<not> isLocal \<and> truthy (js_get config ''portalDataSource'')
           then loadMessagesFromPortal config token resp now st store
         else if truthy (js_get config ''localDataSource'')
           then loadMessagesFromLocal config resp now st store
         else (st\<lparr> isLoading := False, isLoaded := True \<rparr>, store))"

section \<open>Writing to the Web API\<close>

text \<open>The \<^verbatim>\<open>catch\<close> block of the two write operations logs the error; the promise
  of \<^verbatim>\<open>updatePortalCommentReadStatus\<close> is fulfilled all the same.\<close>

definition caught :: "error \<Rightarrow> request list \<Rightarrow> unit outcome" where
  "caught e reqs = \<lparr> settled = Inr (), requests = reqs, logged = [ErrorLog e] \<rparr>"

text \<open>\<^verbatim>\<open>Data.updatePortalCommentReadStatus(messageId, hasRead)\<close>. In the payload the
  \<^verbatim>\<open>statecode\<close> property is written last, so it wins over a read-flag field of that
  name.\<close>

definition updatePortalCommentReadStatus ::
  "jsval \<Rightarrow> error + string \<Rightarrow> response \<Rightarrow> jsval \<Rightarrow> jsval \<Rightarrow> unit outcome" where
  "updatePortalCommentReadStatus config token resp messageId hasRead =
     (if nullish config then caught TypeError []
      else let cfg = js_get config ''portalDataSource'' in
      if nullish cfg then caught TypeError []
      else if nullish (js_get cfg ''operations'') then caught TypeError []
      else let updateOps = js_get (js_get cfg ''operations'') ''update'' in
      if \<not> truthy updateOps \<or> \<not> truthy (js_get updateOps ''enabled'')
      then \<lparr> settled = Inr (), requests = [],
             logged = [Log ''Update operations are not enabled''] \<rparr>
      else (case token of
          Inl e \<Rightarrow> caught e []
        | Inr tok \<Rightarrow>
           (case getFieldName config ''hasread'' of
              Inl e \<Rightarrow> caught e []
            | Inr hasReadField \<Rightarrow>
               let req = \<lparr> req_method = ''PATCH'',
                           req_url = to_string (js_get cfg ''baseUrl'') @ ''/''
                                     @ to_string (js_get cfg ''entitySetName'')
                                     @ ''('' @ to_string messageId @ '')'',
                           req_params = [],
                           req_token = tok,
                           req_body = JObj
                             (if to_string hasReadField = ''statecode''
                              then [(''statecode'', JNum 1)]
                              else [(to_string hasReadField, hasRead), (''statecode'', JNum 1)]) \<rparr>
               in (case resp of
                     FetchRejected \<Rightarrow> caught NetworkError [req]
                   | Response status txt data \<Rightarrow>
                       if ok status
                       then \<lparr> settled = Inr (), requests = [req],
                              logged = [Log (''Portal comment '' @ to_string hasReadField
                                             @ '' field updated successfully'')] \<rparr>
                       else caught (HttpError status txt) [req]))))"

text \<open>
  \<^verbatim>\<open>Data.updateMessageReadStatus(messageId, isRead)\<close>: the new value of the persisted
  entry and the requests sent. The write to \<^verbatim>\<open>localStorage\<close> happens before the first
  \<^verbatim>\<open>await\<close>, so it is done when the caller goes on; what follows the \<^verbatim>\<open>await\<close> touches
  neither the state nor the entry. With no configuration object the property read throws
  outside the \<^verbatim>\<open>try\<close>: the promise rejects and nothing is done.
\<close>

definition updateMessageReadStatus ::
  "jsval \<Rightarrow> location \<Rightarrow> error + string \<Rightarrow> response \<Rightarrow> message list \<Rightarrow> storage \<Rightarrow> jsval \<Rightarrow> jsval
     \<Rightarrow> storage \<times> request list" where
  "updateMessageReadStatus config loc token resp msgs store messageId isRead =
     (if isLocalEnvironment loc then (store, [])
      else if nullish config then (store, [])
      else if \<not> truthy (js_get config ''portalDataSource'') then (store, [])
      else (case getMessage msgs messageId of
          None \<Rightarrow> (store, [])
        | Some message \<Rightarrow>
            if truthy isRead then
              (if date_gt (new_Date (date message)) (Some (lastCheckedDate store))
               then new_Date (date message) else store,
               requests (updatePortalCommentReadStatus config token resp messageId (JBool True)))
            else (store, [])))"

text \<open>\<^verbatim>\<open>message.read = true\<close> on the object that \<^verbatim>\<open>find\<close> returned: the first message
  with that id. Every record is mapped to an object of its own, so no other element of the
  list changes.\<close>

fun setRead :: "jsval \<Rightarrow> message list \<Rightarrow> message list" where
  "setRead messageId [] = []"
| "setRead messageId (msg # msgs) =
     (if strict_eq (msg_id msg) messageId then msg\<lparr> read := JBool True \<rparr> # msgs
      else msg # setRead messageId msgs)"

text \<open>\<^verbatim>\<open>Data.markMessageAsRead(messageId)\<close>: the state, the persisted entry and the
  requests sent.\<close>

definition markMessageAsRead ::
  "jsval \<Rightarrow> location \<Rightarrow> error + string \<Rightarrow> response \<Rightarrow> jsval \<Rightarrow> state \<Rightarrow> storage
     \<Rightarrow> (state \<times> storage) \<times> request list" where
  "markMessageAsRead config loc token resp messageId st store =
     (case find (\<lambda>msg. strict_eq (msg_id msg) messageId) (messages st) of
        None \<Rightarrow> ((st, store), [])
      | Some message \<Rightarrow>
          if truthy (read message) then ((st, store), [])
          else
            let st1 = st\<lparr> messages := setRead messageId (messages st) \<rparr>;
                upd = updateMessageReadStatus config loc token resp (messages st1) store
                        messageId (JBool True)
            in (processMessages st1 (fst upd), snd upd))"

text \<open>\<^verbatim>\<open>Data.markAllMessagesAsRead()\<close>; \<open>now\<close> is the clock.\<close>

definition markAllMessagesAsRead :: "int \<Rightarrow> state \<Rightarrow> storage \<Rightarrow> state \<times> storage" where
  "markAllMessagesAsRead now st store =
     processMessages (st\<lparr> messages := map (\<lambda>msg. msg\<lparr> read := JBool True \<rparr>) (messages st) \<rparr>)
                     (Some now)"

text \<open>\<^verbatim>\<open>PortalInboxExtension.clearReadStatus()\<close>: the entry is removed and a load
  starts.\<close>

definition clearReadStatus ::
  "jsval \<Rightarrow> location \<Rightarrow> error + string \<Rightarrow> response \<Rightarrow> int \<Rightarrow> state \<Rightarrow> storage \<Rightarrow> state \<times> storage" where
  "clearReadStatus config loc token resp now st store =
     loadMessages config loc token resp now st None"

section \<open>Replying\<close>

text \<open>What the promise of \<^verbatim>\<open>createReply\<close> is fulfilled with:
  \<^verbatim>\<open>{success: true, message: "Reply sent successfully"}\<close>,
  \<^verbatim>\<open>{success: false, message: "Local environment - reply not persisted"}\<close>, or
  \<^verbatim>\<open>{success: false, message: error.message}\<close> for the error that was caught.\<close>

datatype reply_result = ReplySent | ReplyNotPersisted | ReplyFailed error

definition replyFailed :: "error \<Rightarrow> request list \<Rightarrow> reply_result outcome" where
  "replyFailed e reqs = \<lparr> settled = Inr (ReplyFailed e), requests = reqs, logged = [ErrorLog e] \<rparr>"

text \<open>The object \<^verbatim>\<open>replyPayload\<close>. Its computed key ends in \<^verbatim>\<open>@odata.bind\<close>, so it
  differs from the four literal keys.\<close>

definition replyPayload :: "regarding_config \<Rightarrow> message \<Rightarrow> jsval \<Rightarrow> jsval" where
  "replyPayload regardingConfig originalMessage replyText =
     JObj [
       (''subject'', JStr (''Re: '' @ to_string (subject originalMessage))),
       (''description'', replyText),
       (''adx_portalcommentdirectioncode'', JNum 1),
       (to_string (navigationProperty regardingConfig) @ ''@odata.bind'',
          JStr (''/'' @ to_string (entitySetName regardingConfig)
                @ ''('' @ to_string (regardingObjectId originalMessage) @ '')'')),
       (''adx_portalcomment_activity_parties'', JArr [
          JObj [(''participationtypemask'', JNum 1),
                (''partyid_contact@odata.bind'',
                   JStr (''/contacts('' @ to_string (toContactId originalMessage) @ '')''))],
          JObj [(''participationtypemask'', JNum 2),
                (''partyid_systemuser@odata.bind'',
                   JStr (''/systemusers('' @ to_string (fromStaffId originalMessage) @ '')''))]])]"

text \<open>\<^verbatim>\<open>Data.createReply(messageId, replyText)\<close>\<close>

definition createReply ::
  "jsval \<Rightarrow> location \<Rightarrow> error + string \<Rightarrow> response \<Rightarrow> message list \<Rightarrow> jsval \<Rightarrow> jsval
     \<Rightarrow> reply_result outcome" where
  "createReply config loc token resp msgs messageId replyText =
     (if isLocalEnvironment loc
      then \<lparr> settled = Inr ReplyNotPersisted, requests = [],
             logged = [Log ''Local environment: Reply not sent to server''] \<rparr>
      else if nullish config then \<lparr> settled = Inl TypeError, requests = [], logged = [] \<rparr>
      else let cfg = js_get config ''portalDataSource'' in
      if \<not> truthy cfg
      then \<lparr> settled = Inr ReplyNotPersisted, requests = [],
             logged = [Log ''Local environment: Reply not sent to server''] \<rparr>
      else if nullish (js_get cfg ''operations'') then replyFailed TypeError []
      else let createOps = js_get (js_get cfg ''operations'') ''create'' in
      if nullish createOps then replyFailed TypeError []
      else if \<not> truthy (js_get createOps ''enabled'') then replyFailed CreateNotEnabled []
      else (case getMessage msgs messageId of
          None \<Rightarrow> replyFailed OriginalNotFound []
        | Some originalMessage \<Rightarrow>
            if \<not> truthy (toContactId originalMessage) then replyFailed ReplyContactIdNotFound []
            else if \<not> truthy (fromStaffId originalMessage) then replyFailed ReplyStaffIdNotFound []
            else (case token of
                Inl e \<Rightarrow> replyFailed e []
              | Inr tok \<Rightarrow>
                 (case getRegardingObjectConfig config of
                    Inl e \<Rightarrow> replyFailed e []
                  | Inr regardingConfig \<Rightarrow>
                     let req = \<lparr> req_method = ''POST'',
                                 req_url = to_string (js_get cfg ''baseUrl'') @ ''/''
                                           @ to_string (js_get cfg ''entitySetName''),
                                 req_params = [],
                                 req_token = tok,
                                 req_body = replyPayload regardingConfig originalMessage replyText \<rparr>
                     in (case resp of
                           FetchRejected \<Rightarrow> replyFailed NetworkError [req]
                         | Response status txt data \<Rightarrow>
                             if ok status
                             then \<lparr> settled = Inr ReplySent, requests = [req],
                                    logged = [Log ''Reply created successfully''] \<rparr>
                             else replyFailed (HttpError status txt) [req])))))"

section \<open>Example data\<close>

text \<open>A configuration that names a container and nothing else.\<close>

definition bare_config :: jsval where
  "bare_config = JObj [(''containerId'', JStr ''portal-inbox-extension'')]"

text \<open>A configuration with the operations block of the shipped initialisation script:
  reading is enabled and sorted by creation date; the additional filter and the flags of
  the create and the update operation are left open.\<close>

definition operations_config :: "jsval \<Rightarrow> bool \<Rightarrow> bool \<Rightarrow> jsval" where
  "operations_config flt create update =
     JObj [(''publisher'', JObj [(''prefix'', JStr ''msfed'')]),
           (''portalDataSource'', JObj [
              (''entitySetName'', JStr ''adx_portalcomments''),
              (''baseUrl'', JStr ''/_api''),
              (''operations'', JObj [
                 (''read'', JObj [(''enabled'', JBool True), (''select'', JNull), (''filter'', flt),
                                  (''orderBy'', JStr ''createdon desc'')]),
                 (''create'', JObj [(''enabled'', JBool create)]),
                 (''update'', JObj [(''enabled'', JBool update)]),
                 (''delete'', JObj [(''enabled'', JBool False)])])])]"

definition hosted :: location where
  "hosted = \<lparr> hostname = ''contoso.powerappsportals.com'', protocol = ''https:'' \<rparr>"

definition localhost :: location where
  "localhost = \<lparr> hostname = ''localhost'', protocol = ''http:'' \<rparr>"

text \<open>A configuration for local development, and the two shapes of a response body.\<close>

definition local_config :: jsval where
  "local_config =
     JObj [(''localDataSource'', JStr ''portal-inbox-extension/localDataSource.json''),
           (''containerId'', JStr ''portal-inbox-extension'')]"

definition snapshot_response :: "jsval \<Rightarrow> response" where
  "snapshot_response rows = Response 200 [] (Some (JObj [(''messages'', rows)]))"

definition api_response :: "jsval \<Rightarrow> response" where
  "api_response rows = Response 200 [] (Some (JObj [(''value'', rows)]))"

text \<open>A party of a portal comment: its role and, for a contact, the expanded contact.\<close>

definition contact_party :: "int \<Rightarrow> string \<Rightarrow> string \<Rightarrow> jsval" where
  "contact_party role cid name =
     JObj [(''participationtypemask'', JNum role),
           (''partyid_contact'', JObj [(''contactid'', JStr cid), (''fullname'', JStr name)])]"

definition staff_party :: jsval where
  "staff_party =
     JObj [(''participationtypemask'', JNum 1),
           (''partyid_systemuser'', JObj [(''systemuserid'', JStr ''staff-1''),
                                          (''fullname'', JStr ''Support Team'')])]"

text \<open>A row of \<^verbatim>\<open>adx_portalcomments\<close> as the Web API returns it: the id, the creation
  date, the parties, and further properties (the read flag, when the server has one).\<close>

definition portal_comment :: "string \<Rightarrow> jsval \<Rightarrow> jsval list \<Rightarrow> (string \<times> jsval) list \<Rightarrow> jsval" where
  "portal_comment aid created parties further =
     JObj ([(''activityid'', JStr aid),
            (''subject'', JStr ''Welcome Message''),
            (''description'', JStr ''Welcome to the portal!''),
            (''createdon'', created),
            (''adx_portalcommentdirectioncode'', JNum 2),
            (''_createdby_value'', JStr ''staff-1''),
            (''_createdby_value@OData.Community.Display.V1.FormattedValue'', JStr ''Support Team''),
            (''_regardingobjectid_value'', JStr ''guid-record-1''),
            (''statecode'', JNum 0),
            (''statuscode'', JNum 1),
            (''adx_portalcomment_activity_parties'', JArr parties)] @ further)"

text \<open>A row of the snapshot file in the legacy shape.\<close>

definition snapshot_message :: "string \<Rightarrow> jsval \<Rightarrow> (string \<times> jsval) list \<Rightarrow> jsval" where
  "snapshot_message mid sent further =
     JObj ([(''id'', JStr mid), (''from'', JStr ''Support''), (''body'', JStr ''hi''),
            (''date'', sent)] @ further)"

text \<open>One comment of the Web API, sent to the contact John Doe, and the message that
  the mapper makes of it (up to the read flag).\<close>

definition welcome_records :: jsval where
  "welcome_records = JArr [portal_comment ''guid-1'' (JDate 1763546400000)
                          [staff_party, contact_party 2 ''contact-7'' ''John Doe''] []]"

definition welcome_message :: "jsval \<Rightarrow> message" where
  "welcome_message isRead =
     \<lparr> msg_id = JStr ''guid-1'', msg_from = JStr ''Support Team'',
       subject = JStr ''Welcome Message'', body = JStr ''Welcome to the portal!'',
       date = JDate 1763546400000, read = isRead, category = JStr ''portal-comment'',
       regardingObjectId = JStr ''guid-record-1'', toContact = JStr ''John Doe'',
       toContactId = JStr ''contact-7'', fromStaffId = JStr ''staff-1'', directionCode = JNum 2,
       statecode = JNum 0, statuscode = JNum 1, hasReadValue = JUndefined \<rparr>"

text \<open>A comment whose third and fourth party are recipients, one without a recipient, and
  one with a read flag.\<close>

definition two_recipients :: jsval where
  "two_recipients = portal_comment ''guid-2'' (JDate 1763546400000)
      [staff_party, contact_party 1 ''contact-3'' ''Ann Poe'',
       contact_party 2 ''contact-7'' ''John Doe'',
       contact_party 2 ''contact-9'' ''Jane Roe''] []"

definition no_recipient :: jsval where
  "no_recipient = portal_comment ''guid-3'' (JDate 1763546400000)
      [staff_party, contact_party 1 ''contact-7'' ''John Doe''] []"

definition flagged_comment :: "jsval \<Rightarrow> jsval" where
  "flagged_comment flag = portal_comment ''guid-1'' (JDate 1763546400000)
      [staff_party, contact_party 2 ''contact-7'' ''John Doe''] [(''msfed_hasread'', flag)]"


text \<open>Two snapshots of legacy rows: one whose first row is read and carries a date that
  is no date, one with a single row that has no read flag.\<close>

definition undated_snapshot :: jsval where
  "undated_snapshot =
     JArr [snapshot_message ''m0'' (JStr ''n/a'') [(''read'', JBool True)],
           snapshot_message ''m1'' (JDate 1763546400000) [(''read'', JBool False)]]"

definition unflagged_snapshot :: jsval where
  "unflagged_snapshot = JArr [snapshot_message ''m1'' (JDate 1763546400000) []]"

text \<open>What matters of a message here: its id, its date and its read flag.\<close>

definition summary :: "state \<Rightarrow> (jsval \<times> jsval \<times> jsval) list" where
  "summary st = map (\<lambda>msg. (msg_id msg, date msg, read msg)) (messages st)"

text \<open>The state after the first load of the second snapshot, and after the first load of
  the welcome comment when the client's clock is a minute behind the server's.\<close>

definition unflagged_loaded :: state where
  "unflagged_loaded = fst (loadMessages local_config localhost (Inr ''token'')
                             (snapshot_response unflagged_snapshot) 1763550000000 initial_state None)"

definition welcome_loaded :: state where
  "welcome_loaded = fst (loadMessages (operations_config JNull True True) hosted (Inr ''token'')
                           (api_response welcome_records) 1763546340000 initial_state None)"

text \<open>The state after the user has opened the welcome comment, which the server holds as
  unread: the flag of the message is set, the server's value stays as it was loaded.\<close>

definition opened_welcome :: state where
  "opened_welcome =
     fst (fst (markMessageAsRead (operations_config JNull True True) hosted (Inr ''token'')
                 (Response 204 [] None) (JStr ''guid-1'')
                 (fst (loadMessages (operations_config JNull True True) hosted (Inr ''token'')
                         (api_response (JArr [flagged_comment (JBool False)])) 1763550000000
                         initial_state None))
                 None))"

section \<open>Properties\<close>

subsection \<open>Defaults of the publisher prefix\<close>

text \<open>
  C10. When the configuration supplies no publisher prefix (no \<^verbatim>\<open>publisher\<close> object, or
  none with a truthy \<^verbatim>\<open>prefix\<close>), neither lookup fails: \<^verbatim>\<open>getFieldName\<close> returns the
  configured override of the key or else \<^verbatim>\<open>msfed_\<close> followed by the key, and
  \<^verbatim>\<open>getRegardingObjectConfig\<close> returns, for each of its three names, the configured one
  or else the name built from \<^verbatim>\<open>msfed\<close>.
\<close>

theorem default_publisher_prefix:
  assumes "\<not> nullish config"
    and "\<not> truthy (js_get_opt (js_get config ''publisher'') ''prefix'')"
  shows "getFieldName config fieldKey =
           Inr (js_or (js_get (js_or (js_get_opt (js_get config ''portalDataSource'') ''fieldMapping'')
                                     (JObj [])) fieldKey)
                      (JStr (''msfed_'' @ fieldKey)))
       \<and> getRegardingObjectConfig config =
           Inr \<lparr> entityName =
                   js_or (js_get (js_or (js_get_opt (js_get config ''portalDataSource'') ''regardingObject'')
                                        (JObj [])) ''entityName'')
                         (JStr ''msfed_application''),
                 entitySetName =
                   js_or (js_get (js_or (js_get_opt (js_get config ''portalDataSource'') ''regardingObject'')
                                        (JObj [])) ''entitySetName'')
                         (JStr ''msfed_applications''),
                 navigationProperty =
                   js_or (js_get (js_or (js_get_opt (js_get config ''portalDataSource'') ''regardingObject'')
                                        (JObj [])) ''navigationProperty'')
                         (JStr ''regardingobjectid_msfed_application'') \<rparr>"
proof -
  have p: "js_or (js_get_opt (js_get config ''publisher'') ''prefix'') (JStr ''msfed'') = JStr ''msfed''"
    using assms(2) by (simp add: js_or_def)
  show ?thesis
    using assms(1) by (simp add: getFieldName_def getRegardingObjectConfig_def p Let_def)
qed

text \<open>With the bare configuration the read-flag field is \<^verbatim>\<open>msfed_hasread\<close> and the three
  names of the regarding object are the \<^verbatim>\<open>msfed\<close> ones.\<close>

theorem default_publisher_prefix_witness:
  "\<not> nullish bare_config
   \<and> \<not> truthy (js_get_opt (js_get bare_config ''publisher'') ''prefix'')
   \<and> getFieldName bare_config ''hasread'' = Inr (JStr ''msfed_hasread'')
   \<and> getRegardingObjectConfig bare_config
       = Inr \<lparr> entityName = JStr ''msfed_application'',
               entitySetName = JStr ''msfed_applications'',
               navigationProperty = JStr ''regardingobjectid_msfed_application'' \<rparr>"
proof -
  have h1: "\<not> nullish bare_config"
    by (simp add: bare_config_def nullish_def)
  have h2: "\<not> truthy (js_get_opt (js_get bare_config ''publisher'') ''prefix'')"
    by (simp add: bare_config_def js_get_def js_get_opt_def nullish_def truthy_def)
  show ?thesis
    using h1 h2 default_publisher_prefix [OF h1 h2, of "''hasread''"]
    by (simp add: bare_config_def js_get_def js_get_opt_def nullish_def truthy_def js_or_def)
qed

subsection \<open>Basic facts\<close>

lemmas js_simps = js_get_def js_get_opt_def nullish_def truthy_def js_or_def strict_eq_def

lemmas mapper_simps =
  mapPortalDataToMessages_def mapComment_def isLegacy_def partiesFind_def isRecipient_def
  getFieldName_def isReadOf_def createdDate_def new_Date_def date_le_def date_gt_def
  lastCheckedDate_def relationshipMessage_def legacyMessage_def

lemmas example_simps =
  portal_comment_def snapshot_message_def contact_party_def staff_party_def
  operations_config_def bare_config_def

lemma js_get_nullish: "nullish v \<Longrightarrow> js_get v k = JUndefined"
  by (auto simp: nullish_def js_get_def)

lemma truthy_not_nullish: "truthy v \<Longrightarrow> \<not> nullish v"
  by (auto simp: nullish_def truthy_def)

lemma truthy_get_not_nullish: "truthy (js_get v k) \<Longrightarrow> \<not> nullish v"
  by (auto simp: nullish_def js_get_def truthy_def)

lemma isLegacy_not_nullish: "isLegacy c \<Longrightarrow> \<not> nullish c"
  by (auto simp: isLegacy_def dest: truthy_get_not_nullish)

lemma hosted_not_local: "\<not> isLocalEnvironment hosted"
  by (simp add: isLocalEnvironment_def hosted_def suffix_to_prefix)

lemma localhost_local: "isLocalEnvironment localhost"
  by (simp add: isLocalEnvironment_def localhost_def)

lemmas state_simps =
  loadRecords_def processMessages_def laterOf_def markMessageAsRead_def
  updateMessageReadStatus_def markAllMessagesAsRead_def initial_state_def summary_def getMessage_def

lemmas load_simps =
  loadMessages_def loadMessagesFromLocal_def loadMessagesFromPortal_def readRequest_def
  readParams_def readFilter_def localRecords_def portalRecords_def ok_def
  local_config_def snapshot_response_def api_response_def
  hosted_not_local localhost_local

subsection \<open>The mapper, branch by branch\<close>

lemma mapComment_legacy: "isLegacy c \<Longrightarrow> mapComment config store now c = Inr (legacyMessage c)"
  by (simp add: mapComment_def isLegacy_not_nullish)

lemma mapComment_relationship:
  assumes "\<not> isLegacy c" and "mapComment config store now c = Inr m"
  shows "\<exists>ps toParty fld.
           js_get c ''adx_portalcomment_activity_parties'' = JArr ps
         \<and> findParty ps = Inr (Some toParty)
         \<and> getFieldName config ''hasread'' = Inr fld
         \<and> truthy (js_get c ''_createdby_value'')
         \<and> truthy (js_get (js_get toParty ''partyid_contact'') ''contactid'')
         \<and> m = relationshipMessage now c toParty fld (isReadOf store now c fld)"
  using assms
  unfolding mapComment_def partiesFind_def Let_def
  by (auto split: if_splits sum.splits option.splits jsval.splits)

lemma arrayMap_member:
  "arrayMap f xs = Inr ys \<Longrightarrow> y \<in> set ys \<Longrightarrow> \<exists>x \<in> set xs. f x = Inr y"
  by (induction xs arbitrary: ys) (auto split: sum.splits)

lemma arrayMap_length: "arrayMap f xs = Inr ys \<Longrightarrow> length ys = length xs"
  by (induction xs arbitrary: ys) (auto split: sum.splits)

lemma mapped_member:
  assumes "mapPortalDataToMessages config store now records = Inr msgs" and "m \<in> set msgs"
  shows "\<exists>c. mapComment config store now c = Inr m"
  using assms unfolding mapPortalDataToMessages_def
  by (auto split: jsval.splits dest: arrayMap_member)

text \<open>A mapped message has both identities of a reply, or neither: the relationship
  branch checks them, the legacy branch leaves them out.\<close>

lemma mapComment_ids:
  assumes "mapComment config store now c = Inr m"
  shows "(truthy (toContactId m) \<and> truthy (fromStaffId m))
       \<or> (toContactId m = JUndefined \<and> fromStaffId m = JUndefined)"
proof (cases "isLegacy c")
  case True
  then show ?thesis using assms by (auto simp: mapComment_legacy legacyMessage_def)
next
  case False
  from mapComment_relationship [OF False assms] show ?thesis
    by (auto simp: relationshipMessage_def)
qed

subsection \<open>The filter of a read query\<close>

text \<open>
  C7. Every read request that \<^verbatim>\<open>loadMessagesFromPortal\<close> builds carries exactly one
  \<^verbatim>\<open>$filter\<close> parameter. Its text starts with the predicate
  \<^verbatim>\<open>adx_portalcommentdirectioncode eq 2\<close>; when the configuration has a filter, that
  filter follows in parentheses after \<^verbatim>\<open>and\<close>, and when it has none the predicate stands
  alone.
\<close>

theorem read_filter_conjunction:
  assumes "readRequest config token = Inr req"
  shows "map snd (filter (\<lambda>p. fst p = ''$filter'') (req_params req)) =
           (let configured = js_get (js_get (js_get (js_get config ''portalDataSource'')
                                        ''operations'') ''read'') ''filter''
            in [''adx_portalcommentdirectioncode eq 2''
                @ (if truthy configured then '' and ('' @ to_string configured @ '')'' else [])])"
proof -
  let ?readOps = "js_get (js_get (js_get config ''portalDataSource'') ''operations'') ''read''"
  have "req_params req = readParams ?readOps"
    using assms by (auto simp: readRequest_def Let_def split: if_splits sum.splits)
  then show ?thesis
    by (simp add: readParams_def readFilter_def Let_def)
qed

text \<open>With the filter \<^verbatim>\<open>(statecode eq 0)\<close> configured, the request asks for both.\<close>

theorem read_filter_conjunction_witness:
  "readRequest (operations_config (JStr ''(statecode eq 0)'') True True) (Inr ''token'') =
     Inr \<lparr> req_method = ''GET'', req_url = ''/_api/adx_portalcomments'',
           req_params = [(''$filter'', ''adx_portalcommentdirectioncode eq 2 and ((statecode eq 0))''),
                         (''$orderby'', ''createdon desc'')],
           req_token = ''token'', req_body = JUndefined \<rparr>
   \<and> map snd (filter (\<lambda>p. fst p = ''$filter'')
        (req_params \<lparr> req_method = ''GET'', req_url = ''/_api/adx_portalcomments'',
           req_params = [(''$filter'', ''adx_portalcommentdirectioncode eq 2 and ((statecode eq 0))''),
                         (''$orderby'', ''createdon desc'')],
           req_token = ''token'', req_body = JUndefined \<rparr>))
       = [''adx_portalcommentdirectioncode eq 2 and ((statecode eq 0))'']"
proof -
  have h: "readRequest (operations_config (JStr ''(statecode eq 0)'') True True) (Inr ''token'') =
     Inr \<lparr> req_method = ''GET'', req_url = ''/_api/adx_portalcomments'',
           req_params = [(''$filter'', ''adx_portalcommentdirectioncode eq 2 and ((statecode eq 0))''),
                         (''$orderby'', ''createdon desc'')],
           req_token = ''token'', req_body = JUndefined \<rparr>"
    by (simp add: readRequest_def operations_config_def readParams_def readFilter_def js_simps)
  show ?thesis
    using h read_filter_conjunction [OF h]
    by (simp add: operations_config_def js_simps)
qed

subsection \<open>Write operations that are not enabled\<close>

text \<open>
  C8, as the claim states it, fails: with the update operation disabled,
  \<^verbatim>\<open>updatePortalCommentReadStatus\<close> does not fail. Its promise is fulfilled; it has
  written one line to the log and sent nothing.
\<close>

theorem disabled_update_counterexample:
  "\<not> truthy (js_get (js_get (js_get (js_get (operations_config JNull True False)
        ''portalDataSource'') ''operations'') ''update'') ''enabled'')
   \<and> updatePortalCommentReadStatus (operations_config JNull True False) (Inr ''token'')
        (Response 204 [] None) (JStr ''m1'') (JBool True) =
      \<lparr> settled = Inr (), requests = [], logged = [Log ''Update operations are not enabled''] \<rparr>"
  by (simp add: updatePortalCommentReadStatus_def operations_config_def js_simps)

text \<open>
  C8, amended. With a data source configured that has an operations block: when the
  update operation is missing or not enabled, \<^verbatim>\<open>updatePortalCommentReadStatus\<close> returns
  normally, having logged that and sent no request; when the create operation is there
  and not enabled, \<^verbatim>\<open>createReply\<close> in a hosted environment is fulfilled with the failure
  "Create operations are not enabled", having sent no request.
\<close>

theorem disabled_write_operations:
  assumes "truthy (js_get config ''portalDataSource'')"
    and "\<not> nullish (js_get (js_get config ''portalDataSource'') ''operations'')"
  shows "(let updateOps = js_get (js_get (js_get config ''portalDataSource'') ''operations'') ''update''
          in \<not> truthy updateOps \<or> \<not> truthy (js_get updateOps ''enabled'') \<longrightarrow>
             updatePortalCommentReadStatus config token resp messageId hasRead =
               \<lparr> settled = Inr (), requests = [],
                 logged = [Log ''Update operations are not enabled''] \<rparr>)
       \<and> (let createOps = js_get (js_get (js_get config ''portalDataSource'') ''operations'') ''create''
          in \<not> isLocalEnvironment loc \<and> \<not> nullish createOps \<and> \<not> truthy (js_get createOps ''enabled'') \<longrightarrow>
             createReply config loc token resp msgs messageId replyText =
               \<lparr> settled = Inr (ReplyFailed CreateNotEnabled), requests = [],
                 logged = [ErrorLog CreateNotEnabled] \<rparr>)"
proof -
  have c: "\<not> nullish config"
    using assms(1) by (rule truthy_get_not_nullish)
  have d: "\<not> nullish (js_get config ''portalDataSource'')"
    using assms(1) by (rule truthy_not_nullish)
  show ?thesis
    using assms c d
    by (simp add: updatePortalCommentReadStatus_def createReply_def replyFailed_def Let_def)
qed

theorem disabled_write_operations_witness:
  "truthy (js_get (operations_config JNull False False) ''portalDataSource'')
   \<and> \<not> nullish (js_get (js_get (operations_config JNull False False) ''portalDataSource'') ''operations'')
   \<and> updatePortalCommentReadStatus (operations_config JNull False False) (Inr ''token'')
         (Response 204 [] None) (JStr ''m1'') (JBool True) =
        \<lparr> settled = Inr (), requests = [], logged = [Log ''Update operations are not enabled''] \<rparr>
   \<and> createReply (operations_config JNull False False) hosted (Inr ''token'')
         (Response 204 [] None) [] (JStr ''m1'') (JStr ''thanks'') =
        \<lparr> settled = Inr (ReplyFailed CreateNotEnabled), requests = [],
          logged = [ErrorLog CreateNotEnabled] \<rparr>"
proof -
  let ?c = "operations_config JNull False False"
  have h1: "truthy (js_get ?c ''portalDataSource'')"
    by (simp add: operations_config_def js_simps)
  have h2: "\<not> nullish (js_get (js_get ?c ''portalDataSource'') ''operations'')"
    by (simp add: operations_config_def js_simps)
  show ?thesis
    using h1 h2 hosted_not_local
      disabled_write_operations [OF h1 h2, of "Inr ''token''" "Response 204 [] None" "JStr ''m1''"
        "JBool True" hosted "[]" "JStr ''thanks''"]
    by (simp add: operations_config_def js_simps Let_def)
qed

subsection \<open>The payload of a reply\<close>

lemma bind_key_differs: "k @ ''@odata.bind'' \<noteq> ''adx_portalcomment_activity_parties''"
proof
  assume "k @ ''@odata.bind'' = ''adx_portalcomment_activity_parties''"
  then have "last (k @ ''@odata.bind'') = last ''adx_portalcomment_activity_parties''"
    by (rule arg_cong)
  then show False by simp
qed

text \<open>
  C3. Let \<open>M\<close> be the message that \<^verbatim>\<open>getMessage\<close> finds in the list of messages, whatever
  that list is and whatever the read flag of \<open>M\<close> has become, with a contact id and a staff
  id that pass the two checks of \<^verbatim>\<open>createReply\<close>. In a hosted environment with the create
  operation enabled and a token at hand, \<^verbatim>\<open>createReply\<close> sends one POST request. The
  party list of its payload has exactly two entries, the first with role 1 bound to the
  contact \<open>toContactId M\<close>, the second with role 2 bound to the system user
  \<open>fromStaffId M\<close>; the subject is \<^verbatim>\<open>Re: \<close> followed by the subject of \<open>M\<close>, the description
  is the reply text, and the direction code is 1. The two checks are tests of truthiness;
  by \<open>mapComment_ids\<close> an id of a mapped message that is neither \<^verbatim>\<open>null\<close> nor
  \<^verbatim>\<open>undefined\<close> passes them.
\<close>

theorem reply_reverses_parties:
  assumes found: "getMessage msgs messageId = Some M"
    and contact: "truthy (toContactId M)"
    and staff: "truthy (fromStaffId M)"
    and hosted: "\<not> isLocalEnvironment loc"
    and enabled: "truthy (js_get (js_get (js_get (js_get config ''portalDataSource'') ''operations'')
                                  ''create'') ''enabled'')"
    and tok: "token = Inr tok"
  shows "\<exists>req. requests (createReply config loc token resp msgs messageId replyText) = [req]
           \<and> req_method req = ''POST''
           \<and> js_get (req_body req) ''adx_portalcomment_activity_parties'' =
               JArr [JObj [(''participationtypemask'', JNum 1),
                           (''partyid_contact@odata.bind'',
                              JStr (''/contacts('' @ to_string (toContactId M) @ '')''))],
                     JObj [(''participationtypemask'', JNum 2),
                           (''partyid_systemuser@odata.bind'',
                              JStr (''/systemusers('' @ to_string (fromStaffId M) @ '')''))]]
           \<and> js_get (req_body req) ''subject'' = JStr (''Re: '' @ to_string (subject M))
           \<and> js_get (req_body req) ''description'' = replyText
           \<and> js_get (req_body req) ''adx_portalcommentdirectioncode'' = JNum 1"
proof -
  have n1: "\<not> nullish (js_get (js_get (js_get config ''portalDataSource'') ''operations'') ''create'')"
    using enabled by (rule truthy_get_not_nullish)
  then have n2: "\<not> nullish (js_get (js_get config ''portalDataSource'') ''operations'')"
    by (auto simp: js_get_nullish nullish_def)
  then have n3: "\<not> nullish (js_get config ''portalDataSource'')"
    by (auto simp: js_get_nullish nullish_def)
  then have n4: "\<not> nullish config"
    by (auto simp: js_get_nullish nullish_def)
  have t: "truthy (js_get config ''portalDataSource'')"
    using n2 by (auto simp: js_get_def nullish_def truthy_def split: jsval.splits)
  obtain rc where rc: "getRegardingObjectConfig config = Inr rc"
    using n4 by (simp add: getRegardingObjectConfig_def Let_def)
  let ?req = "\<lparr> req_method = ''POST'',
                 req_url = to_string (js_get (js_get config ''portalDataSource'') ''baseUrl'') @ ''/''
                           @ to_string (js_get (js_get config ''portalDataSource'') ''entitySetName''),
                 req_params = [], req_token = tok,
                 req_body = replyPayload rc M replyText \<rparr>"
  have sent: "requests (createReply config loc token resp msgs messageId replyText) = [?req]"
    using hosted n1 n2 n4 t enabled found contact staff tok rc
    by (cases resp) (simp_all add: createReply_def replyFailed_def Let_def)
  have payload: "js_get (replyPayload rc M replyText) ''adx_portalcomment_activity_parties'' =
               JArr [JObj [(''participationtypemask'', JNum 1),
                           (''partyid_contact@odata.bind'',
                              JStr (''/contacts('' @ to_string (toContactId M) @ '')''))],
                     JObj [(''participationtypemask'', JNum 2),
                           (''partyid_systemuser@odata.bind'',
                              JStr (''/systemusers('' @ to_string (fromStaffId M) @ '')''))]]
           \<and> js_get (replyPayload rc M replyText) ''subject'' = JStr (''Re: '' @ to_string (subject M))
           \<and> js_get (replyPayload rc M replyText) ''description'' = replyText
           \<and> js_get (replyPayload rc M replyText) ''adx_portalcommentdirectioncode'' = JNum 1"
    by (simp add: replyPayload_def js_get_def bind_key_differs)
  show ?thesis
    by (rule exI [of _ ?req]) (simp add: sent payload)
qed

text \<open>The welcome comment, loaded as unread, opened and then answered.\<close>

theorem reply_reverses_parties_witness:
  "messages opened_welcome = [(welcome_message (JBool True))\<lparr> hasReadValue := JBool False \<rparr>]
   \<and> getMessage (messages opened_welcome) (JStr ''guid-1'')
       = Some ((welcome_message (JBool True))\<lparr> hasReadValue := JBool False \<rparr>)
   \<and> truthy (toContactId ((welcome_message (JBool True))\<lparr> hasReadValue := JBool False \<rparr>))
   \<and> truthy (fromStaffId ((welcome_message (JBool True))\<lparr> hasReadValue := JBool False \<rparr>))
   \<and> \<not> isLocalEnvironment hosted
   \<and> truthy (js_get (js_get (js_get (js_get (operations_config JNull True True)
                 ''portalDataSource'') ''operations'') ''create'') ''enabled'')
   \<and> (\<exists>req. requests (createReply (operations_config JNull True True) hosted (Inr ''token'')
                        (Response 204 [] None) (messages opened_welcome) (JStr ''guid-1'')
                        (JStr ''Thank you'')) = [req]
           \<and> req_method req = ''POST''
           \<and> js_get (req_body req) ''adx_portalcomment_activity_parties'' =
               JArr [JObj [(''participationtypemask'', JNum 1),
                           (''partyid_contact@odata.bind'', JStr ''/contacts(contact-7)'')],
                     JObj [(''participationtypemask'', JNum 2),
                           (''partyid_systemuser@odata.bind'', JStr ''/systemusers(staff-1)'')]]
           \<and> js_get (req_body req) ''subject'' = JStr ''Re: Welcome Message''
           \<and> js_get (req_body req) ''description'' = JStr ''Thank you''
           \<and> js_get (req_body req) ''adx_portalcommentdirectioncode'' = JNum 1)"
proof -
  let ?cfg = "operations_config JNull True True"
  let ?M = "(welcome_message (JBool True))\<lparr> hasReadValue := JBool False \<rparr>"
  have h1: "messages opened_welcome = [?M]"
    by (simp add: opened_welcome_def flagged_comment_def welcome_message_def load_simps state_simps
                  mapper_simps example_simps js_simps)
  have h2: "getMessage (messages opened_welcome) (JStr ''guid-1'') = Some ?M"
    by (simp add: h1 getMessage_def welcome_message_def strict_eq_def)
  have h3: "truthy (toContactId ?M)"
    by (simp add: welcome_message_def truthy_def)
  have h4: "truthy (fromStaffId ?M)"
    by (simp add: welcome_message_def truthy_def)
  have h6: "truthy (js_get (js_get (js_get (js_get ?cfg ''portalDataSource'') ''operations'')
                       ''create'') ''enabled'')"
    by (simp add: operations_config_def js_simps)
  have c: "to_string (toContactId (welcome_message (JBool True))) = ''contact-7''
           \<and> to_string (fromStaffId (welcome_message (JBool True))) = ''staff-1''
           \<and> to_string (subject (welcome_message (JBool True))) = ''Welcome Message''"
    by (simp add: welcome_message_def)
  show ?thesis
    using h1 h2 h3 h4 h6 hosted_not_local
      reply_reverses_parties [OF h2 h3 h4 hosted_not_local h6 refl,
        where tok = "''token''" and resp = "Response 204 [] None" and replyText = "JStr ''Thank you''"]
    by (simp add: c)
qed

subsection \<open>The legacy branch of the mapper\<close>

text \<open>
  C9, as the claim states it, fails. A legacy record without a category and without a
  read flag, and with a property \<^verbatim>\<open>priority\<close> of its own, is mapped to a message whose
  category is \<^verbatim>\<open>general\<close> and whose read flag is \<^verbatim>\<open>false\<close>: two defaults besides the
  subject's. The message has the seven properties of the object literal, so
  \<^verbatim>\<open>priority\<close> is not carried over.
\<close>

theorem legacy_defaults_counterexample:
  "isLegacy (snapshot_message ''m1'' (JDate 1763546400000) [(''priority'', JStr ''high'')])
   \<and> js_get (snapshot_message ''m1'' (JDate 1763546400000) [(''priority'', JStr ''high'')]) ''category''
       = JUndefined
   \<and> js_get (snapshot_message ''m1'' (JDate 1763546400000) [(''priority'', JStr ''high'')]) ''read''
       = JUndefined
   \<and> mapComment bare_config None 1763550000000
        (snapshot_message ''m1'' (JDate 1763546400000) [(''priority'', JStr ''high'')])
       = Inr \<lparr> msg_id = JStr ''m1'', msg_from = JStr ''Support'', subject = JStr ''(No Subject)'',
               body = JStr ''hi'', date = JDate 1763546400000, read = JBool False,
               category = JStr ''general'',
               regardingObjectId = JUndefined, toContact = JUndefined, toContactId = JUndefined,
               fromStaffId = JUndefined, directionCode = JUndefined, statecode = JUndefined,
               statuscode = JUndefined, hasReadValue = JUndefined \<rparr>"
  by (simp add: mapper_simps example_simps js_simps)

text \<open>
  C9, amended. A record of the legacy shape is always mapped, whatever the
  configuration, the persisted instant and the clock are. The message takes
  \<^verbatim>\<open>id\<close>, \<^verbatim>\<open>from\<close>, \<^verbatim>\<open>body\<close> and \<^verbatim>\<open>date\<close> from the record as they are; the subject is
  the record's, or \<^verbatim>\<open>(No Subject)\<close> when that is falsy; the read flag is the record's, or
  \<^verbatim>\<open>false\<close> when the record has none; the category is the record's, or \<^verbatim>\<open>general\<close>
  when that is falsy. It has no other property.
\<close>

theorem legacy_mapping:
  assumes "isLegacy comment"
  shows "mapComment config store now comment =
           Inr \<lparr> msg_id = js_get comment ''id'',
                 msg_from = js_get comment ''from'',
                 subject = (if truthy (js_get comment ''subject'') then js_get comment ''subject''
                            else JStr ''(No Subject)''),
                 body = js_get comment ''body'',
                 date = js_get comment ''date'',
                 read = (if js_get comment ''read'' = JUndefined then JBool False
                         else js_get comment ''read''),
                 category = (if truthy (js_get comment ''category'') then js_get comment ''category''
                             else JStr ''general''),
                 regardingObjectId = JUndefined, toContact = JUndefined, toContactId = JUndefined,
                 fromStaffId = JUndefined, directionCode = JUndefined, statecode = JUndefined,
                 statuscode = JUndefined, hasReadValue = JUndefined \<rparr>"
proof -
  have "truthy (js_get comment ''body'')"
    using assms by (simp add: isLegacy_def)
  then show ?thesis
    using assms by (simp add: mapComment_legacy legacyMessage_def js_or_def)
qed

theorem legacy_mapping_witness:
  "isLegacy (snapshot_message ''m2'' (JDate 1763546400000)
               [(''subject'', JStr ''Hello''), (''read'', JBool True), (''category'', JStr ''billing'')])
   \<and> mapComment bare_config None 1763550000000
        (snapshot_message ''m2'' (JDate 1763546400000)
               [(''subject'', JStr ''Hello''), (''read'', JBool True), (''category'', JStr ''billing'')])
       = Inr \<lparr> msg_id = JStr ''m2'', msg_from = JStr ''Support'', subject = JStr ''Hello'',
               body = JStr ''hi'', date = JDate 1763546400000, read = JBool True,
               category = JStr ''billing'',
               regardingObjectId = JUndefined, toContact = JUndefined, toContactId = JUndefined,
               fromStaffId = JUndefined, directionCode = JUndefined, statecode = JUndefined,
               statuscode = JUndefined, hasReadValue = JUndefined \<rparr>"
proof -
  let ?r = "snapshot_message ''m2'' (JDate 1763546400000)
               [(''subject'', JStr ''Hello''), (''read'', JBool True), (''category'', JStr ''billing'')]"
  have h: "isLegacy ?r"
    by (simp add: isLegacy_def snapshot_message_def js_simps)
  show ?thesis
    using h legacy_mapping [OF h, of bare_config None 1763550000000]
    by (simp add: snapshot_message_def js_simps)
qed

subsection \<open>The recipient of a relationship-backed record\<close>

text \<open>\<^verbatim>\<open>parties.find\<close> returns the first party that the callback accepts; it throws on
  a party before that one that is \<^verbatim>\<open>null\<close> or \<^verbatim>\<open>undefined\<close>.\<close>

lemma findParty_first:
  "findParty ps = Inr (Some q) \<Longrightarrow> find isRecipient ps = Some q"
  by (induction ps) (auto split: if_splits)

lemma findParty_error: "findParty ps = Inl e \<Longrightarrow> e = TypeError"
  by (induction ps) (auto split: if_splits)

lemma nullish_not_recipient: "nullish p \<Longrightarrow> \<not> isRecipient p"
  by (auto simp: isRecipient_def nullish_def js_get_def)

lemma findParty_find:
  "(\<forall>q \<in> set (takeWhile (\<lambda>q. \<not> isRecipient q) ps). \<not> nullish q)
     \<Longrightarrow> findParty ps = Inr (find isRecipient ps)"
  by (induction ps) (auto dest: nullish_not_recipient)

lemma findParty_found: "find isRecipient ps = Some p \<Longrightarrow> findParty ps \<noteq> Inr None"
  by (induction ps) (auto split: if_splits)

lemma getFieldName_error: "getFieldName config k = Inl e \<Longrightarrow> e = TypeError"
  by (auto simp: getFieldName_def Let_def split: if_splits)

text \<open>
  C4. For a record that takes the relationship branch and whose parties are an array, let
  \<open>p\<close> be the first party with role 2 and a contact reference, however many such parties
  follow. A message that the mapper returns has the contact id and the contact name of
  \<open>p\<close>, and the mapper never throws "Contact party not found". With a creator and no
  \<^verbatim>\<open>null\<close> among the parties before \<open>p\<close>, the outcome is settled by \<open>p\<close> alone: the error
  of a missing contact id or of a missing staff name, else the message built from \<open>p\<close>.
  When the record has no such party, the mapping fails, with the error of the missing
  contact party or with the error of an earlier check; with a creator and a non-empty
  array of parties, none of them \<^verbatim>\<open>null\<close>, the error is "Contact party not found".
\<close>

theorem first_recipient_party:
  assumes "\<not> isLegacy comment"
  shows "(\<forall>ps p. js_get comment ''adx_portalcomment_activity_parties'' = JArr ps
              \<and> find isRecipient ps = Some p
            \<longrightarrow> (\<forall>m. mapComment config store now comment = Inr m
                   \<longrightarrow> toContactId m = js_get (js_get p ''partyid_contact'') ''contactid''
                     \<and> toContact m = js_get (js_get p ''partyid_contact'') ''fullname'')
              \<and> mapComment config store now comment \<noteq> Inl ContactPartyNotFound
              \<and> (truthy (js_get comment ''_createdby_value'')
                   \<and> (\<forall>q \<in> set (takeWhile (\<lambda>q. \<not> isRecipient q) ps). \<not> nullish q)
                 \<longrightarrow> mapComment config store now comment =
                       (case getFieldName config ''hasread'' of
                          Inl e \<Rightarrow> Inl e
                        | Inr fld \<Rightarrow>
                            if \<not> truthy (js_get (js_get p ''partyid_contact'') ''contactid'')
                            then Inl ContactIdNotFound
                            else if \<not> truthy (js_get comment
                                      ''_createdby_value@OData.Community.Display.V1.FormattedValue'')
                            then Inl StaffNameNotFound
                            else Inr (relationshipMessage now comment p fld
                                        (isReadOf store now comment fld)))))
       \<and> ((\<forall>ps. js_get comment ''adx_portalcomment_activity_parties'' = JArr ps
              \<longrightarrow> find isRecipient ps = None)
            \<longrightarrow> (\<exists>e \<in> {ContactPartyNotFound, PartiesNotFound, CreatedByNotFound, TypeError}.
                   mapComment config store now comment = Inl e))
       \<and> (\<forall>ps. js_get comment ''adx_portalcomment_activity_parties'' = JArr ps
              \<and> find isRecipient ps = None \<and> ps \<noteq> [] \<and> (\<forall>q \<in> set ps. \<not> nullish q)
              \<and> truthy (js_get comment ''_createdby_value'')
            \<longrightarrow> mapComment config store now comment = Inl ContactPartyNotFound)"
proof (intro conjI allI impI)
  fix ps p m
  assume a: "js_get comment ''adx_portalcomment_activity_parties'' = JArr ps
              \<and> find isRecipient ps = Some p"
    and mr: "mapComment config store now comment = Inr m"
  from mapComment_relationship [OF assms mr] a
  obtain toParty fld where "findParty ps = Inr (Some toParty)"
    and m: "m = relationshipMessage now comment toParty fld (isReadOf store now comment fld)"
    by auto
  then have "toParty = p"
    using a by (auto dest: findParty_first)
  then show "toContactId m = js_get (js_get p ''partyid_contact'') ''contactid''"
    and "toContact m = js_get (js_get p ''partyid_contact'') ''fullname''"
    using m by (simp_all add: relationshipMessage_def)
next
  fix ps p
  assume a: "js_get comment ''adx_portalcomment_activity_parties'' = JArr ps
              \<and> find isRecipient ps = Some p"
  have "findParty ps \<noteq> Inr None"
    using a by (simp add: findParty_found)
  then show "mapComment config store now comment \<noteq> Inl ContactPartyNotFound"
    using a unfolding mapComment_def partiesFind_def Let_def
    by (auto split: sum.splits option.splits if_splits dest: findParty_error getFieldName_error)
next
  fix ps p
  assume a: "js_get comment ''adx_portalcomment_activity_parties'' = JArr ps
              \<and> find isRecipient ps = Some p"
    and b: "truthy (js_get comment ''_createdby_value'')
              \<and> (\<forall>q \<in> set (takeWhile (\<lambda>q. \<not> isRecipient q) ps). \<not> nullish q)"
  have c: "\<not> nullish comment"
    using b by (auto dest: truthy_get_not_nullish)
  have ne: "ps \<noteq> []"
    using a by auto
  have f: "findParty ps = Inr (Some p)"
    using a b by (simp add: findParty_find)
  have len: "\<not> strict_eq (js_get (JArr ps) ''length'') (JNum 0)"
    using ne by (simp add: js_get_def strict_eq_def)
  show "mapComment config store now comment =
          (case getFieldName config ''hasread'' of
             Inl e \<Rightarrow> Inl e
           | Inr fld \<Rightarrow>
               if \<not> truthy (js_get (js_get p ''partyid_contact'') ''contactid'')
               then Inl ContactIdNotFound
               else if \<not> truthy (js_get comment
                         ''_createdby_value@OData.Community.Display.V1.FormattedValue'')
               then Inl StaffNameNotFound
               else Inr (relationshipMessage now comment p fld
                           (isReadOf store now comment fld)))"
    using assms a b c f len
    by (simp add: mapComment_def partiesFind_def Let_def truthy_def split: sum.splits)
next
  assume none: "\<forall>ps. js_get comment ''adx_portalcomment_activity_parties'' = JArr ps
              \<longrightarrow> find isRecipient ps = None"
  have no_party: "\<And>ps q. js_get comment ''adx_portalcomment_activity_parties'' = JArr ps
                    \<Longrightarrow> findParty ps \<noteq> Inr (Some q)"
    using none by (auto dest: findParty_first)
  show "\<exists>e \<in> {ContactPartyNotFound, PartiesNotFound, CreatedByNotFound, TypeError}.
           mapComment config store now comment = Inl e"
    using assms no_party
    unfolding mapComment_def partiesFind_def Let_def
    by (auto split: sum.splits option.splits jsval.splits dest: findParty_error)
next
  fix ps
  assume a: "js_get comment ''adx_portalcomment_activity_parties'' = JArr ps
              \<and> find isRecipient ps = None \<and> ps \<noteq> [] \<and> (\<forall>q \<in> set ps. \<not> nullish q)
              \<and> truthy (js_get comment ''_createdby_value'')"
  have c: "\<not> nullish comment"
    using a by (auto dest: truthy_get_not_nullish)
  have "\<forall>q \<in> set (takeWhile (\<lambda>q. \<not> isRecipient q) ps). \<not> nullish q"
    using a by (auto dest: set_takeWhileD)
  then have f: "findParty ps = Inr None"
    using a by (simp add: findParty_find)
  have len: "\<not> strict_eq (js_get (JArr ps) ''length'') (JNum 0)"
    using a by (simp add: js_get_def strict_eq_def)
  show "mapComment config store now comment = Inl ContactPartyNotFound"
    using assms a c f len
    by (simp add: mapComment_def partiesFind_def Let_def truthy_def)
qed

text \<open>With the staff member, a sending contact and two recipients, the first recipient,
  John Doe, is taken; with senders only, the mapper throws "Contact party not found".\<close>

theorem first_recipient_party_witness:
  "\<not> isLegacy two_recipients
   \<and> find isRecipient [staff_party, contact_party 1 ''contact-3'' ''Ann Poe'',
                         contact_party 2 ''contact-7'' ''John Doe'',
                         contact_party 2 ''contact-9'' ''Jane Roe'']
       = Some (contact_party 2 ''contact-7'' ''John Doe'')
   \<and> (\<exists>m. mapComment bare_config None 1763550000000 two_recipients = Inr m
          \<and> toContactId m = JStr ''contact-7'' \<and> toContact m = JStr ''John Doe'')
   \<and> \<not> isLegacy no_recipient
   \<and> find isRecipient [staff_party, contact_party 1 ''contact-7'' ''John Doe''] = None
   \<and> mapComment bare_config None 1763550000000 no_recipient = Inl ContactPartyNotFound"
proof -
  let ?ps = "[staff_party, contact_party 1 ''contact-3'' ''Ann Poe'',
              contact_party 2 ''contact-7'' ''John Doe'', contact_party 2 ''contact-9'' ''Jane Roe'']"
  let ?p = "contact_party 2 ''contact-7'' ''John Doe''"
  let ?qs = "[staff_party, contact_party 1 ''contact-7'' ''John Doe'']"
  have l1: "\<not> isLegacy two_recipients"
    by (simp add: two_recipients_def isLegacy_def example_simps js_simps)
  have l2: "\<not> isLegacy no_recipient"
    by (simp add: no_recipient_def isLegacy_def example_simps js_simps)
  have p1: "js_get two_recipients ''adx_portalcomment_activity_parties'' = JArr ?ps"
    by (simp add: two_recipients_def portal_comment_def js_get_def)
  have p2: "js_get no_recipient ''adx_portalcomment_activity_parties'' = JArr ?qs"
    by (simp add: no_recipient_def portal_comment_def js_get_def)
  have f1: "find isRecipient ?ps = Some ?p"
    by (simp add: isRecipient_def example_simps js_simps)
  have f2: "find isRecipient ?qs = None"
    by (simp add: isRecipient_def example_simps js_simps)
  have b1: "\<forall>q \<in> set (takeWhile (\<lambda>q. \<not> isRecipient q) ?ps). \<not> nullish q"
    by (simp add: isRecipient_def example_simps js_simps)
  have b2: "\<forall>q \<in> set ?qs. \<not> nullish q"
    by (simp add: example_simps nullish_def)
  have c1: "truthy (js_get two_recipients ''_createdby_value'')"
    by (simp add: two_recipients_def portal_comment_def js_simps)
  have c2: "truthy (js_get no_recipient ''_createdby_value'')"
    by (simp add: no_recipient_def portal_comment_def js_simps)
  have g: "getFieldName bare_config ''hasread'' = Inr (JStr ''msfed_hasread'')"
    by (simp add: getFieldName_def bare_config_def js_simps)
  have i: "truthy (js_get (js_get ?p ''partyid_contact'') ''contactid'')"
    by (simp add: contact_party_def js_simps)
  have n: "truthy (js_get two_recipients ''_createdby_value@OData.Community.Display.V1.FormattedValue'')"
    by (simp add: two_recipients_def portal_comment_def js_simps)
  note th1 = first_recipient_party [OF l1, where config = bare_config and store = None
                and now = 1763550000000]
  note th2 = first_recipient_party [OF l2, where config = bare_config and store = None
                and now = 1763550000000]
  from th1 p1 f1 c1 b1
  have "mapComment bare_config None 1763550000000 two_recipients =
          (case getFieldName bare_config ''hasread'' of
             Inl e \<Rightarrow> Inl e
           | Inr fld \<Rightarrow>
               if \<not> truthy (js_get (js_get ?p ''partyid_contact'') ''contactid'')
               then Inl ContactIdNotFound
               else if \<not> truthy (js_get two_recipients
                         ''_createdby_value@OData.Community.Display.V1.FormattedValue'')
               then Inl StaffNameNotFound
               else Inr (relationshipMessage 1763550000000 two_recipients ?p fld
                           (isReadOf None 1763550000000 two_recipients fld)))"
    by blast
  then have m: "mapComment bare_config None 1763550000000 two_recipients =
          Inr (relationshipMessage 1763550000000 two_recipients ?p (JStr ''msfed_hasread'')
                 (isReadOf None 1763550000000 two_recipients (JStr ''msfed_hasread'')))"
    by (simp add: g i n)
  have ids: "toContactId (relationshipMessage 1763550000000 two_recipients ?p (JStr ''msfed_hasread'')
                 (isReadOf None 1763550000000 two_recipients (JStr ''msfed_hasread''))) = JStr ''contact-7''
           \<and> toContact (relationshipMessage 1763550000000 two_recipients ?p (JStr ''msfed_hasread'')
                 (isReadOf None 1763550000000 two_recipients (JStr ''msfed_hasread''))) = JStr ''John Doe''"
    by (simp add: relationshipMessage_def contact_party_def js_get_def)
  have e: "mapComment bare_config None 1763550000000 no_recipient = Inl ContactPartyNotFound"
    using th2 p2 f2 b2 c2 by blast
  from m ids l1 l2 f1 f2 e show ?thesis by blast
qed

subsection \<open>The derived read flag\<close>




subsection \<open>The persisted instant under \<^verbatim>\<open>processMessages\<close>\<close>

lemma processMessages_state:
  "fst (processMessages st store) =
     st\<lparr> unreadCount := length (filter (\<lambda>msg. \<not> truthy (read msg)) (messages st)) \<rparr>"
  by (simp add: processMessages_def Let_def split: list.splits)

lemma processMessages_monotone:
  "lastCheckedDate store \<le> lastCheckedDate (snd (processMessages st store))"
  by (auto simp: processMessages_def Let_def date_gt_def lastCheckedDate_def
           split: list.splits option.splits)

text \<open>Among messages that are all dated by date-time strings, the reduction finds a
  latest one.\<close>

lemma foldl_laterOf_latest:
  assumes "\<forall>x \<in> set (m # ms). \<exists>t. date x = JDate t"
  shows "\<exists>t. date (foldl laterOf m ms) = JDate t
           \<and> (\<forall>x \<in> set (m # ms). \<forall>u. date x = JDate u \<longrightarrow> u \<le> t)"
  using assms
proof (induction ms arbitrary: m)
  case Nil
  then show ?case by auto
next
  case (Cons a ms)
  obtain t u where t: "date m = JDate t" and u: "date a = JDate u"
    using Cons.prems by auto
  have l: "date (laterOf m a) = JDate (max t u)"
    using t u by (auto simp: laterOf_def date_gt_def new_Date_def)
  have "\<forall>x \<in> set (laterOf m a # ms). \<exists>t. date x = JDate t"
    using Cons.prems l by auto
  from Cons.IH [OF this] obtain w where w: "date (foldl laterOf (laterOf m a) ms) = JDate w"
    and b: "\<forall>x \<in> set (laterOf m a # ms). \<forall>u. date x = JDate u \<longrightarrow> u \<le> w"
    by blast
  have "max t u \<le> w"
    using b l by auto
  then show ?case
    using w b t u by auto
qed

lemma processMessages_covers:
  assumes dated: "\<forall>x \<in> set (messages st). truthy (read x) \<and> truthy (date x)
                     \<longrightarrow> (\<exists>t. date x = JDate t)"
    and m: "m \<in> set (messages st)" and r: "truthy (read m)" and d: "date m = JDate t"
  shows "t \<le> lastCheckedDate (snd (processMessages st store))"
proof -
  let ?rs = "filter (\<lambda>msg. truthy (read msg) \<and> truthy (date msg)) (messages st)"
  have mem: "m \<in> set ?rs"
    using m r d by (simp add: truthy_def)
  then obtain a as where rs: "?rs = a # as"
    by (cases ?rs) auto
  have "\<forall>x \<in> set (a # as). \<exists>t. date x = JDate t"
    using dated rs [symmetric] by auto
  from foldl_laterOf_latest [OF this] obtain w where w: "date (foldl laterOf a as) = JDate w"
    and b: "\<forall>x \<in> set (a # as). \<forall>u. date x = JDate u \<longrightarrow> u \<le> w"
    by blast
  have "t \<le> w"
    using b mem d rs by auto
  moreover have "w \<le> lastCheckedDate (snd (processMessages st store))"
    using rs w by (auto simp: processMessages_def Let_def date_gt_def new_Date_def lastCheckedDate_def
                        split: option.splits)
  ultimately show ?thesis by simp
qed

lemma foldl_laterOf_mem: "foldl laterOf m ms \<in> set (m # ms)"
proof (induction ms arbitrary: m)
  case Nil
  then show ?case by simp
next
  case (Cons a ms)
  have "laterOf m a = m \<or> laterOf m a = a"
    by (simp add: laterOf_def)
  moreover have "foldl laterOf (laterOf m a) ms \<in> set (laterOf m a # ms)"
    by (rule Cons.IH)
  ultimately show ?case
    by auto
qed

lemma processMessages_bound:
  assumes dated: "\<forall>x \<in> set (messages st). truthy (read x) \<and> truthy (date x)
                     \<longrightarrow> (\<exists>t. date x = JDate t)"
    and bound: "\<forall>x \<in> set (messages st). truthy (read x) \<longrightarrow> (\<forall>t. date x = JDate t \<longrightarrow> t \<le> b)"
    and s: "lastCheckedDate store \<le> b"
  shows "lastCheckedDate (snd (processMessages st store)) \<le> b"
proof (cases "filter (\<lambda>msg. truthy (read msg) \<and> truthy (date msg)) (messages st)")
  case Nil
  then show ?thesis
    using s by (simp add: processMessages_def)
next
  case (Cons a as)
  let ?r = "foldl laterOf a as"
  have "?r \<in> set (filter (\<lambda>msg. truthy (read msg) \<and> truthy (date msg)) (messages st))"
    unfolding Cons by (rule foldl_laterOf_mem)
  then have r: "?r \<in> set (messages st)" "truthy (read ?r)" "truthy (date ?r)"
    by auto
  then obtain w where w: "date ?r = JDate w"
    using dated by blast
  then have "w \<le> b"
    using bound r by blast
  then show ?thesis
    using s w Cons
    by (simp add: processMessages_def Let_def new_Date_def lastCheckedDate_def)
qed

subsection \<open>Marking one message\<close>

lemma find_split:
  "find P xs = Some x \<Longrightarrow> \<exists>ys zs. xs = ys @ x # zs \<and> (\<forall>y \<in> set ys. \<not> P y) \<and> P x"
proof (induction xs)
  case Nil
  then show ?case by simp
next
  case (Cons a xs)
  show ?case
  proof (cases "P a")
    case True
    then have "a = x" using Cons.prems by simp
    with True show ?thesis by (intro exI [of _ "[]"] exI [of _ xs]) simp
  next
    case False
    then have "find P xs = Some x" using Cons.prems by simp
    from Cons.IH [OF this] obtain ys zs where "xs = ys @ x # zs" "\<forall>y \<in> set ys. \<not> P y" "P x"
      by blast
    with False show ?thesis by (intro exI [of _ "a # ys"] exI [of _ zs]) simp
  qed
qed

lemma setRead_split:
  "(\<forall>y \<in> set ys. \<not> strict_eq (msg_id y) messageId) \<Longrightarrow> strict_eq (msg_id x) messageId \<Longrightarrow>
     setRead messageId (ys @ x # zs) = ys @ x\<lparr> read := JBool True \<rparr> # zs"
  by (induction ys) auto

lemma find_after_setRead:
  "(\<forall>y \<in> set ys. \<not> strict_eq (msg_id y) messageId) \<Longrightarrow> strict_eq (msg_id x) messageId \<Longrightarrow>
     getMessage (ys @ x\<lparr> read := JBool True \<rparr> # zs) messageId = Some (x\<lparr> read := JBool True \<rparr>)"
  by (induction ys) (auto simp: getMessage_def)

lemma updateMessageReadStatus_storage:
  "fst (updateMessageReadStatus config loc token resp msgs store messageId isRead) =
     (if \<not> isLocalEnvironment loc \<and> \<not> nullish config \<and> truthy (js_get config ''portalDataSource'')
      then (case getMessage msgs messageId of
              None \<Rightarrow> store
            | Some message \<Rightarrow>
                if truthy isRead \<and> date_gt (new_Date (date message)) (Some (lastCheckedDate store))
                then new_Date (date message) else store)
      else store)"
  by (simp add: updateMessageReadStatus_def split: option.splits)

lemma updateMessageReadStatus_monotone:
  "lastCheckedDate store
     \<le> lastCheckedDate (fst (updateMessageReadStatus config loc token resp msgs store messageId isRead))"
  unfolding updateMessageReadStatus_storage
  by (auto simp: date_gt_def lastCheckedDate_def split: option.splits)

text \<open>
  C5. \<^verbatim>\<open>markMessageAsRead\<close> changes nothing and sends nothing when no message has the id
  or the first one that has it is read already. Otherwise it sets the read flag of that
  message and of no other, recomputes the unread count, and never moves the persisted
  instant backward; the token and the response of the remote update have no influence on
  the state and the entry it leaves. When the dates of the messages are date-time strings,
  as the data model has them, the instant ends at or after the date of the message in
  every environment; in a hosted environment with a data source configured this needs the
  date of the marked message only. When, besides, no read message is dated after the
  stored instant, as it is after a load, the instant ends at the later of the stored
  instant and the date of the message.
\<close>

theorem mark_as_read:
  "(let R = markMessageAsRead config loc token resp messageId st store in
    (getMessage (messages st) messageId = None
       \<or> (\<exists>msg. getMessage (messages st) messageId = Some msg \<and> truthy (read msg))
     \<longrightarrow> R = ((st, store), []))
  \<and> (\<forall>message. getMessage (messages st) messageId = Some message \<and> \<not> truthy (read message) \<longrightarrow>
        (\<exists>before after. messages st = before @ message # after
            \<and> messages (fst (fst R)) = before @ message\<lparr> read := JBool True \<rparr> # after)
      \<and> unreadCount (fst (fst R))
          = length (filter (\<lambda>msg. \<not> truthy (read msg)) (messages (fst (fst R))))
      \<and> lastCheckedDate store \<le> lastCheckedDate (snd (fst R))
      \<and> fst (markMessageAsRead config loc token' resp' messageId st store) = fst R
      \<and> (\<forall>d. date message = JDate d
              \<and> ((\<not> isLocalEnvironment loc \<and> truthy (js_get config ''portalDataSource''))
                 \<or> (\<forall>x \<in> set (messages st). truthy (read x) \<and> truthy (date x)
                        \<longrightarrow> (\<exists>t. date x = JDate t)))
            \<longrightarrow> d \<le> lastCheckedDate (snd (fst R)))
      \<and> (\<forall>d. date message = JDate d
              \<and> (\<forall>x \<in> set (messages st). truthy (read x) \<and> truthy (date x)
                        \<longrightarrow> (\<exists>t. date x = JDate t \<and> t \<le> lastCheckedDate store))
            \<longrightarrow> lastCheckedDate (snd (fst R)) = max d (lastCheckedDate store))))"
proof -
  let ?R = "markMessageAsRead config loc token resp messageId st store"
  have noop: "getMessage (messages st) messageId = None
       \<or> (\<exists>msg. getMessage (messages st) messageId = Some msg \<and> truthy (read msg))
     \<Longrightarrow> ?R = ((st, store), [])"
    by (auto simp: markMessageAsRead_def getMessage_def)
  have marked: "(\<exists>before after. messages st = before @ message # after
            \<and> messages (fst (fst ?R)) = before @ message\<lparr> read := JBool True \<rparr> # after)
      \<and> unreadCount (fst (fst ?R))
          = length (filter (\<lambda>msg. \<not> truthy (read msg)) (messages (fst (fst ?R))))
      \<and> lastCheckedDate store \<le> lastCheckedDate (snd (fst ?R))
      \<and> fst (markMessageAsRead config loc token' resp' messageId st store) = fst ?R
      \<and> (\<forall>d. date message = JDate d
              \<and> ((\<not> isLocalEnvironment loc \<and> truthy (js_get config ''portalDataSource''))
                 \<or> (\<forall>x \<in> set (messages st). truthy (read x) \<and> truthy (date x)
                        \<longrightarrow> (\<exists>t. date x = JDate t)))
            \<longrightarrow> d \<le> lastCheckedDate (snd (fst ?R)))
      \<and> (\<forall>d. date message = JDate d
              \<and> (\<forall>x \<in> set (messages st). truthy (read x) \<and> truthy (date x)
                        \<longrightarrow> (\<exists>t. date x = JDate t \<and> t \<le> lastCheckedDate store))
            \<longrightarrow> lastCheckedDate (snd (fst ?R)) = max d (lastCheckedDate store))"
    if found: "getMessage (messages st) messageId = Some message"
      and unread: "\<not> truthy (read message)" for message
  proof -
    let ?P = "\<lambda>msg. strict_eq (msg_id msg) messageId"
    let ?st1 = "st\<lparr> messages := setRead messageId (messages st) \<rparr>"
    let ?upd = "\<lambda>token resp. updateMessageReadStatus config loc token resp (messages ?st1) store
                  messageId (JBool True)"
    have f: "find ?P (messages st) = Some message"
      using found by (simp add: getMessage_def)
    from find_split [OF f] obtain before after
      where dec: "messages st = before @ message # after"
        and nb: "\<forall>y \<in> set before. \<not> ?P y" and pm: "?P message"
      by blast
    have sr: "setRead messageId (messages st) = before @ message\<lparr> read := JBool True \<rparr> # after"
      unfolding dec using nb pm by (rule setRead_split)
    have R: "\<And>token resp. markMessageAsRead config loc token resp messageId st store
               = (processMessages ?st1 (fst (?upd token resp)), snd (?upd token resp))"
      using f unread by (simp add: markMessageAsRead_def Let_def)
    have msgs: "messages (fst (fst ?R)) = before @ message\<lparr> read := JBool True \<rparr> # after"
      by (simp add: R processMessages_state sr)
    have count: "unreadCount (fst (fst ?R))
          = length (filter (\<lambda>msg. \<not> truthy (read msg)) (messages (fst (fst ?R))))"
      by (simp add: R processMessages_state)
    have mono: "lastCheckedDate store \<le> lastCheckedDate (snd (fst ?R))"
      using updateMessageReadStatus_monotone
              [of store config loc token resp "messages ?st1" messageId "JBool True"]
            processMessages_monotone [of "fst (?upd token resp)" ?st1]
      by (simp add: R)
    have indep: "fst (markMessageAsRead config loc token' resp' messageId st store) = fst ?R"
      by (simp add: R updateMessageReadStatus_storage)
    have msgs1: "messages ?st1 = before @ message\<lparr> read := JBool True \<rparr> # after"
      by (simp add: sr)
    have g: "getMessage (messages ?st1) messageId = Some (message\<lparr> read := JBool True \<rparr>)"
      using nb pm by (simp add: sr find_after_setRead)
    have adv: "d \<le> lastCheckedDate (snd (fst ?R))"
      if d: "date message = JDate d"
        and env: "(\<not> isLocalEnvironment loc \<and> truthy (js_get config ''portalDataSource''))
                 \<or> (\<forall>x \<in> set (messages st). truthy (read x) \<and> truthy (date x)
                        \<longrightarrow> (\<exists>t. date x = JDate t))" for d
      using env
    proof
      assume h: "\<not> isLocalEnvironment loc \<and> truthy (js_get config ''portalDataSource'')"
      then have c: "\<not> nullish config"
        by (auto dest: truthy_get_not_nullish)
      have "d \<le> lastCheckedDate (fst (?upd token resp))"
        using h c g d
        by (auto simp: updateMessageReadStatus_storage date_gt_def new_Date_def lastCheckedDate_def
                       truthy_def split: option.splits)
      also have "\<dots> \<le> lastCheckedDate (snd (fst ?R))"
        using processMessages_monotone [of "fst (?upd token resp)" ?st1] by (simp add: R)
      finally show ?thesis .
    next
      assume all: "\<forall>x \<in> set (messages st). truthy (read x) \<and> truthy (date x)
                     \<longrightarrow> (\<exists>t. date x = JDate t)"
      have dated: "\<forall>x \<in> set (messages ?st1). truthy (read x) \<and> truthy (date x)
                     \<longrightarrow> (\<exists>t. date x = JDate t)"
        unfolding msgs1 using all d by (auto simp: dec)
      have mem: "message\<lparr> read := JBool True \<rparr> \<in> set (messages ?st1)"
        by (simp add: sr)
      have "d \<le> lastCheckedDate (snd (processMessages ?st1 (fst (?upd token resp))))"
        by (rule processMessages_covers [OF dated mem]) (simp_all add: d truthy_def)
      then show ?thesis by (simp add: R)
    qed
    have exact: "lastCheckedDate (snd (fst ?R)) = max d (lastCheckedDate store)"
      if d: "date message = JDate d"
        and inv: "\<forall>x \<in> set (messages st). truthy (read x) \<and> truthy (date x)
                        \<longrightarrow> (\<exists>t. date x = JDate t \<and> t \<le> lastCheckedDate store)" for d
    proof -
      let ?b = "max d (lastCheckedDate store)"
      have all: "\<forall>x \<in> set (messages st). truthy (read x) \<and> truthy (date x)
                     \<longrightarrow> (\<exists>t. date x = JDate t)"
        using inv by blast
      have lower: "?b \<le> lastCheckedDate (snd (fst ?R))"
        using adv [OF d disjI2 [OF all]] mono by simp
      have dated: "\<forall>x \<in> set (messages ?st1). truthy (read x) \<and> truthy (date x)
                     \<longrightarrow> (\<exists>t. date x = JDate t)"
        unfolding msgs1 using all d by (auto simp: dec)
      have bound: "\<forall>x \<in> set (messages ?st1). truthy (read x)
                     \<longrightarrow> (\<forall>t. date x = JDate t \<longrightarrow> t \<le> ?b)"
      proof (intro ballI impI allI)
        fix x t
        assume x: "x \<in> set (messages ?st1)" and rx: "truthy (read x)" and dx: "date x = JDate t"
        from x consider "x = message\<lparr> read := JBool True \<rparr>" | "x \<in> set (messages st)"
          unfolding msgs1 by (auto simp: dec)
        then show "t \<le> ?b"
        proof cases
          case 1
          then show ?thesis using dx d by simp
        next
          case 2
          have "truthy (date x)" using dx by (simp add: truthy_def)
          with inv 2 rx obtain t' where "date x = JDate t'" "t' \<le> lastCheckedDate store"
            by blast
          then show ?thesis using dx by simp
        qed
      qed
      have s1: "lastCheckedDate (fst (?upd token resp)) \<le> ?b"
        using g d
        by (auto simp: updateMessageReadStatus_storage new_Date_def lastCheckedDate_def
                 split: option.splits)
      have "lastCheckedDate (snd (processMessages ?st1 (fst (?upd token resp)))) \<le> ?b"
        by (rule processMessages_bound [OF dated bound s1])
      then have "lastCheckedDate (snd (fst ?R)) \<le> ?b"
        by (simp add: R)
      with lower show ?thesis by linarith
    qed
    show ?thesis
      using dec msgs count mono indep adv exact by blast
  qed
  show ?thesis
    unfolding Let_def using noop marked by blast
qed

text \<open>In a local environment: an unknown id changes nothing; marking the only message
  moves the instant to its date; a failed token and a rejected request leave the same
  state as a successful update. In a hosted environment the instant moves to the date of
  the message as well.\<close>

theorem mark_as_read_witness:
  "summary unflagged_loaded = [(JStr ''m1'', JDate 1763546400000, JBool False)]
   \<and> isLocalEnvironment localhost
   \<and> markMessageAsRead local_config localhost (Inr ''token'') (Response 204 [] None) (JStr ''m9'')
        unflagged_loaded None = ((unflagged_loaded, None), [])
   \<and> lastCheckedDate (snd (fst (markMessageAsRead local_config localhost
        (Inr ''token'') (Response 204 [] None) (JStr ''m1'') unflagged_loaded None))) = 1763546400000
   \<and> fst (markMessageAsRead local_config localhost (Inl TokenError) FetchRejected (JStr ''m1'')
        unflagged_loaded None)
      = fst (markMessageAsRead local_config localhost (Inr ''token'') (Response 204 [] None)
        (JStr ''m1'') unflagged_loaded None)
   \<and> summary welcome_loaded = [(JStr ''guid-1'', JDate 1763546400000, JBool False)]
   \<and> \<not> isLocalEnvironment hosted
   \<and> lastCheckedDate (snd (fst (markMessageAsRead (operations_config JNull True True) hosted
        (Inr ''token'') (Response 204 [] None) (JStr ''guid-1'') welcome_loaded None))) = 1763546400000"
proof -
  have s: "summary unflagged_loaded = [(JStr ''m1'', JDate 1763546400000, JBool False)]"
    by (simp add: unflagged_loaded_def unflagged_snapshot_def load_simps state_simps
                  mapper_simps example_simps js_simps)
  obtain M where ms: "messages unflagged_loaded = [M]" and i: "msg_id M = JStr ''m1''"
    and d: "date M = JDate 1763546400000" and r: "read M = JBool False"
    using s by (auto simp: summary_def)
  have none: "getMessage (messages unflagged_loaded) (JStr ''m9'') = None"
    by (simp add: ms i getMessage_def strict_eq_def)
  have found: "getMessage (messages unflagged_loaded) (JStr ''m1'') = Some M"
    by (simp add: ms i getMessage_def strict_eq_def)
  have unread: "\<not> truthy (read M)"
    by (simp add: r truthy_def)
  have dated: "\<forall>x \<in> set (messages unflagged_loaded). truthy (read x) \<and> truthy (date x)
                 \<longrightarrow> (\<exists>t. date x = JDate t \<and> t \<le> lastCheckedDate None)"
    by (simp add: ms r truthy_def)
  note th = mark_as_read [where config = local_config and loc = localhost and st = unflagged_loaded
                and store = None and resp = "Response 204 [] None" and token = "Inr ''token''",
              unfolded Let_def]
  have a: "markMessageAsRead local_config localhost (Inr ''token'') (Response 204 [] None) (JStr ''m9'')
        unflagged_loaded None = ((unflagged_loaded, None), [])"
    using th [of "JStr ''m9''"] none by blast
  have "lastCheckedDate (snd (fst (markMessageAsRead local_config localhost
        (Inr ''token'') (Response 204 [] None) (JStr ''m1'') unflagged_loaded None)))
          = max 1763546400000 (lastCheckedDate None)"
    using th [of "JStr ''m1''"] found unread d dated by blast
  then have b: "lastCheckedDate (snd (fst (markMessageAsRead local_config localhost
        (Inr ''token'') (Response 204 [] None) (JStr ''m1'') unflagged_loaded None))) = 1763546400000"
    by (simp add: lastCheckedDate_def)
  have c: "fst (markMessageAsRead local_config localhost (Inl TokenError) FetchRejected (JStr ''m1'')
        unflagged_loaded None)
      = fst (markMessageAsRead local_config localhost (Inr ''token'') (Response 204 [] None)
        (JStr ''m1'') unflagged_loaded None)"
    using th [of "JStr ''m1''" "Inl TokenError" FetchRejected] found unread by blast
  have s': "summary welcome_loaded = [(JStr ''guid-1'', JDate 1763546400000, JBool False)]"
    by (simp add: welcome_loaded_def welcome_records_def load_simps state_simps
                  mapper_simps example_simps js_simps)
  obtain W where ws: "messages welcome_loaded = [W]" and wi: "msg_id W = JStr ''guid-1''"
    and wd: "date W = JDate 1763546400000" and wr: "read W = JBool False"
    using s' by (auto simp: summary_def)
  have found': "getMessage (messages welcome_loaded) (JStr ''guid-1'') = Some W"
    by (simp add: ws wi getMessage_def strict_eq_def)
  have unread': "\<not> truthy (read W)"
    by (simp add: wr truthy_def)
  have dated': "\<forall>x \<in> set (messages welcome_loaded). truthy (read x) \<and> truthy (date x)
                 \<longrightarrow> (\<exists>t. date x = JDate t \<and> t \<le> lastCheckedDate None)"
    by (simp add: ws wr truthy_def)
  have "lastCheckedDate (snd (fst (markMessageAsRead (operations_config JNull True True) hosted
          (Inr ''token'') (Response 204 [] None) (JStr ''guid-1'') welcome_loaded None)))
          = max 1763546400000 (lastCheckedDate None)"
    using mark_as_read [where config = "operations_config JNull True True" and loc = hosted
            and st = welcome_loaded and store = None and resp = "Response 204 [] None"
            and token = "Inr ''token''" and messageId = "JStr ''guid-1''", unfolded Let_def]
          found' unread' wd dated'
    by blast
  then have e: "lastCheckedDate (snd (fst (markMessageAsRead (operations_config JNull True True) hosted
          (Inr ''token'') (Response 204 [] None) (JStr ''guid-1'') welcome_loaded None)))
          = 1763546400000"
    by (simp add: lastCheckedDate_def)
  show ?thesis
    using s a b c s' e localhost_local hosted_not_local by blast
qed

text \<open>
  The dates have to be date-time strings. In a local environment
  \<^verbatim>\<open>updateMessageReadStatus\<close> returns at once, and the persisted instant moves only in
  \<^verbatim>\<open>processMessages\<close>, whose reduction never gets past a first read message with an
  unparseable date. In the snapshot below the row \<^verbatim>\<open>m0\<close> is read and dated \<^verbatim>\<open>n/a\<close>,
  which the data model rules out; marking \<^verbatim>\<open>m1\<close> sets its flag and leaves the entry
  missing.
\<close>

lemma unparseable_date_stalls:
  "isLocalEnvironment localhost
   \<and> summary (fst (loadMessages local_config localhost (Inr ''token'')
                    (snapshot_response undated_snapshot) 1763550000000 initial_state None))
       = [(JStr ''m0'', JStr ''n/a'', JBool True), (JStr ''m1'', JDate 1763546400000, JBool False)]
   \<and> snd (loadMessages local_config localhost (Inr ''token'')
                    (snapshot_response undated_snapshot) 1763550000000 initial_state None) = None
   \<and> summary (fst (fst (markMessageAsRead local_config localhost (Inr ''token'') (Response 204 [] None)
         (JStr ''m1'')
         (fst (loadMessages local_config localhost (Inr ''token'')
                    (snapshot_response undated_snapshot) 1763550000000 initial_state None)) None)))
       = [(JStr ''m0'', JStr ''n/a'', JBool True), (JStr ''m1'', JDate 1763546400000, JBool True)]
   \<and> snd (fst (markMessageAsRead local_config localhost (Inr ''token'') (Response 204 [] None)
         (JStr ''m1'')
         (fst (loadMessages local_config localhost (Inr ''token'')
                    (snapshot_response undated_snapshot) 1763550000000 initial_state None)) None))
       = None
   \<and> lastCheckedDate None < 1763546400000"
  by (simp add: undated_snapshot_def load_simps state_simps mapper_simps example_simps js_simps)

subsection \<open>Marking all messages, then loading again\<close>

lemma markAll_state:
  "fst (markAllMessagesAsRead now st store) =
     st\<lparr> messages := map (\<lambda>msg. msg\<lparr> read := JBool True \<rparr>) (messages st), unreadCount := 0 \<rparr>"
  by (simp add: markAllMessagesAsRead_def processMessages_state truthy_def filter_empty_conv o_def)

lemma markAll_reaches_now: "now \<le> lastCheckedDate (snd (markAllMessagesAsRead now st store))"
  using processMessages_monotone
          [of "Some now" "st\<lparr> messages := map (\<lambda>msg. msg\<lparr> read := JBool True \<rparr>) (messages st) \<rparr>"]
  by (simp add: markAllMessagesAsRead_def lastCheckedDate_def)

lemma markAll_covers:
  assumes "\<forall>x \<in> set (messages st). truthy (date x) \<longrightarrow> (\<exists>u. date x = JDate u)"
    and "x \<in> set (messages st)" and "date x = JDate t"
  shows "t \<le> lastCheckedDate (snd (markAllMessagesAsRead now st store))"
  unfolding markAllMessagesAsRead_def
proof (rule processMessages_covers [where m = "x\<lparr> read := JBool True \<rparr>"])
  show "\<forall>y \<in> set (messages (st\<lparr> messages := map (\<lambda>msg. msg\<lparr> read := JBool True \<rparr>) (messages st) \<rparr>)).
          truthy (read y) \<and> truthy (date y) \<longrightarrow> (\<exists>t. date y = JDate t)"
    using assms(1) by auto
  show "x\<lparr> read := JBool True \<rparr>
          \<in> set (messages (st\<lparr> messages := map (\<lambda>msg. msg\<lparr> read := JBool True \<rparr>) (messages st) \<rparr>))"
    using assms(2) by auto
  show "truthy (read (x\<lparr> read := JBool True \<rparr>))"
    by (simp add: truthy_def)
  show "date (x\<lparr> read := JBool True \<rparr>) = JDate t"
    using assms(3) by simp
qed

lemma loadRecords_failed:
  "mapPortalDataToMessages config store now records = Inl e \<Longrightarrow>
     loadRecords config now records st store = (st\<lparr> isLoading := False, isLoaded := True \<rparr>, store)"
  by (simp add: loadRecords_def)

lemma loadRecords_loaded:
  "mapPortalDataToMessages config store now records = Inr msgs \<Longrightarrow>
     fst (loadRecords config now records st store) =
       st\<lparr> messages := msgs,
           unreadCount := length (filter (\<lambda>msg. \<not> truthy (read msg)) msgs),
           isLoading := False, isLoaded := True \<rparr>"
  using processMessages_state [of "st\<lparr> messages := msgs \<rparr>" store]
  by (cases "processMessages (st\<lparr> messages := msgs \<rparr>) store") (simp add: loadRecords_def)

text \<open>
  C6, as the claim states it, fails for legacy rows. The row of the snapshot below has no
  read flag. After \<^verbatim>\<open>markAllMessagesAsRead\<close> it is read and the persisted instant is
  past its date; the next load of the same snapshot maps it to an unread message again.
  It also fails for a relationship-backed record dated after the instant at which all
  messages were marked, when the record was not loaded then: here nothing was loaded, and
  the welcome comment, dated forty seconds later, arrives unread.
\<close>

theorem reload_unread_counterexample:
  "summary (fst (markAllMessagesAsRead 1763550001000 unflagged_loaded None))
     = [(JStr ''m1'', JDate 1763546400000, JBool True)]
   \<and> snd (markAllMessagesAsRead 1763550001000 unflagged_loaded None) = Some 1763550001000
   \<and> unreadCount (fst (loadMessages local_config localhost (Inr ''token'')
        (snapshot_response unflagged_snapshot) 1763550002000
        (fst (markAllMessagesAsRead 1763550001000 unflagged_loaded None))
        (Some 1763550001000))) = 1
   \<and> markAllMessagesAsRead 1763546360000 initial_state None = (initial_state, Some 1763546360000)
   \<and> summary (fst (loadMessages (operations_config JNull True True) hosted (Inr ''token'')
                     (api_response welcome_records) 1763546380000 initial_state
                     (Some 1763546360000)))
     = [(JStr ''guid-1'', JDate 1763546400000, JBool False)]
   \<and> unreadCount (fst (loadMessages (operations_config JNull True True) hosted (Inr ''token'')
                     (api_response welcome_records) 1763546380000 initial_state
                     (Some 1763546360000))) = 1"
  by (simp add: unflagged_loaded_def unflagged_snapshot_def welcome_records_def load_simps
                state_simps mapper_simps example_simps js_simps)

lemma loadMessages_cases:
  "loadMessages config loc token resp now st store = (st\<lparr> isLoading := True, isLoaded := False \<rparr>, store)
   \<or> loadMessages config loc token resp now st store = (st\<lparr> isLoading := False, isLoaded := True \<rparr>, store)
   \<or> (\<exists>status txt data.
         resp = Response status txt (Some data)
       \<and> (loadMessages config loc token resp now st store
             = loadRecords config now (localRecords data) (st\<lparr> isLoading := True, isLoaded := False \<rparr>) store
          \<or> loadMessages config loc token resp now st store
             = loadRecords config now (portalRecords data) (st\<lparr> isLoading := True, isLoaded := False \<rparr>) store))"
  by (auto simp: loadMessages_def loadMessagesFromLocal_def loadMessagesFromPortal_def Let_def
           split: response.splits option.splits sum.splits)

text \<open>A load into a state without unread messages leaves none, when every row that is
  mapped takes the relationship branch, lacks the server's read field and was created at
  or before the persisted instant.\<close>

lemma reload_all_read:
  assumes count: "unreadCount st = 0"
    and flags: "\<forall>m \<in> set (messages st). read m = JBool True"
    and recs: "\<forall>rs r. records = JArr rs \<and> r \<in> set rs \<longrightarrow>
        \<not> isLegacy r
      \<and> (\<forall>fld. getFieldName config ''hasread'' = Inr fld \<longrightarrow> nullish (js_get r (to_string fld)))
      \<and> (\<exists>t. js_get r ''createdon'' = JDate t \<and> t \<le> lastCheckedDate store)"
  shows "unreadCount (fst (loadRecords config now records st store)) = 0
       \<and> (\<forall>m \<in> set (messages (fst (loadRecords config now records st store))). read m = JBool True)"
proof (cases "mapPortalDataToMessages config store now records")
  case (Inl e)
  then show ?thesis
    using count flags by (simp add: loadRecords_failed)
next
  case (Inr msgs)
  have all_read: "read m = JBool True" if "m \<in> set msgs" for m
  proof -
    from Inr that obtain rs r where rs: "records = JArr rs" and r: "r \<in> set rs"
      and m: "mapComment config store now r = Inr m"
      by (auto simp: mapPortalDataToMessages_def split: jsval.splits dest: arrayMap_member)
    from recs rs r have nl: "\<not> isLegacy r" by blast
    from mapComment_relationship [OF nl m] obtain toParty fld
      where fld: "getFieldName config ''hasread'' = Inr fld"
        and mm: "m = relationshipMessage now r toParty fld (isReadOf store now r fld)"
      by auto
    from recs rs r fld have flag: "nullish (js_get r (to_string fld))" by blast
    from recs rs r obtain t where t: "js_get r ''createdon'' = JDate t"
      and le: "t \<le> lastCheckedDate store" by blast
    have "isReadOf store now r fld = JBool True"
      using flag t le
      by (auto simp: isReadOf_def nullish_def createdDate_def js_or_def truthy_def new_Date_def
                     date_le_def Let_def)
    then show ?thesis
      using mm by (simp add: relationshipMessage_def)
  qed
  then have "filter (\<lambda>msg. \<not> truthy (read msg)) msgs = []"
    by (auto simp: filter_empty_conv truthy_def)
  then show ?thesis
    using all_read by (simp add: loadRecords_loaded [OF Inr])
qed

text \<open>
  C6, amended. Let \<^verbatim>\<open>markAllMessagesAsRead\<close> run at the instant \<open>now\<close>, and let
  \<^verbatim>\<open>loadMessages\<close> follow. Suppose every row of the response is a relationship-backed
  record without the server's read field, created at a date-time \<open>t\<close> that is at most
  \<open>now\<close> or is the date of a message that was loaded when all were marked (the dates of
  those being date-time strings, where they have one). Then the load leaves no unread
  message, whichever source it reads and whether or not it succeeds: every message it
  leaves has the read flag \<^verbatim>\<open>true\<close>. A date after \<open>now\<close> is covered in the second case
  only.
\<close>

theorem mark_all_then_reload:
  assumes recs: "\<forall>status txt data rs r.
        resp = Response status txt (Some data)
      \<and> (localRecords data = JArr rs \<or> portalRecords data = JArr rs) \<and> r \<in> set rs
    \<longrightarrow> \<not> isLegacy r
      \<and> (\<forall>fld. getFieldName config ''hasread'' = Inr fld \<longrightarrow> nullish (js_get r (to_string fld)))
      \<and> (\<exists>t. js_get r ''createdon'' = JDate t
             \<and> (t \<le> now
                \<or> ((\<forall>x \<in> set (messages st). truthy (date x) \<longrightarrow> (\<exists>u. date x = JDate u))
                   \<and> (\<exists>x \<in> set (messages st). date x = JDate t))))"
  shows "(let A = markAllMessagesAsRead now st store;
              L = loadMessages config loc token resp now' (fst A) (snd A)
          in unreadCount (fst L) = 0 \<and> (\<forall>m \<in> set (messages (fst L)). read m = JBool True))"
proof -
  let ?A = "markAllMessagesAsRead now st store"
  let ?st = "(fst ?A)\<lparr> isLoading := True, isLoaded := False \<rparr>"
  let ?L = "loadMessages config loc token resp now' (fst ?A) (snd ?A)"
  have reached: "t \<le> lastCheckedDate (snd ?A)"
    if "t \<le> now
          \<or> ((\<forall>x \<in> set (messages st). truthy (date x) \<longrightarrow> (\<exists>u. date x = JDate u))
             \<and> (\<exists>x \<in> set (messages st). date x = JDate t))" for t
    using that
  proof
    assume "t \<le> now"
    then show ?thesis using markAll_reaches_now [of now st store] by simp
  next
    assume "(\<forall>x \<in> set (messages st). truthy (date x) \<longrightarrow> (\<exists>u. date x = JDate u))
                   \<and> (\<exists>x \<in> set (messages st). date x = JDate t)"
    then show ?thesis by (auto intro: markAll_covers)
  qed
  have count: "unreadCount ?st = 0"
    and flags: "\<forall>m \<in> set (messages ?st). read m = JBool True"
    by (auto simp: markAll_state)
  have core: "unreadCount (fst (loadRecords config now' records ?st (snd ?A))) = 0
       \<and> (\<forall>m \<in> set (messages (fst (loadRecords config now' records ?st (snd ?A)))). read m = JBool True)"
    if "resp = Response status content (Some data)"
      and "records = localRecords data \<or> records = portalRecords data" for status content data records
  proof (rule reload_all_read [OF count flags], intro allI impI)
    fix rs r
    assume a: "records = JArr rs \<and> r \<in> set rs"
    with that have "localRecords data = JArr rs \<or> portalRecords data = JArr rs" by auto
    with recs that(1) a
    have b: "\<not> isLegacy r
      \<and> (\<forall>fld. getFieldName config ''hasread'' = Inr fld \<longrightarrow> nullish (js_get r (to_string fld)))
      \<and> (\<exists>t. js_get r ''createdon'' = JDate t
             \<and> (t \<le> now
                \<or> ((\<forall>x \<in> set (messages st). truthy (date x) \<longrightarrow> (\<exists>u. date x = JDate u))
                   \<and> (\<exists>x \<in> set (messages st). date x = JDate t))))"
      by blast
    then obtain t where "js_get r ''createdon'' = JDate t" and "t \<le> lastCheckedDate (snd ?A)"
      using reached by blast
    with b show "\<not> isLegacy r
      \<and> (\<forall>fld. getFieldName config ''hasread'' = Inr fld \<longrightarrow> nullish (js_get r (to_string fld)))
      \<and> (\<exists>t. js_get r ''createdon'' = JDate t \<and> t \<le> lastCheckedDate (snd ?A))"
      by blast
  qed
  have "unreadCount (fst ?L) = 0 \<and> (\<forall>m \<in> set (messages (fst ?L)). read m = JBool True)"
    using loadMessages_cases [of config loc token resp now' "fst ?A" "snd ?A"]
  proof (elim disjE exE conjE)
    assume "?L = (?st, snd ?A)"
    then show ?thesis using count flags by simp
  next
    assume "?L = ((fst ?A)\<lparr> isLoading := False, isLoaded := True \<rparr>, snd ?A)"
    then show ?thesis by (simp add: markAll_state)
  next
    fix status content data
    assume "resp = Response status content (Some data)"
      and "?L = loadRecords config now' (localRecords data) ?st (snd ?A)"
    then show ?thesis using core [of status content data "localRecords data"] by simp
  next
    fix status content data
    assume "resp = Response status content (Some data)"
      and "?L = loadRecords config now' (portalRecords data) ?st (snd ?A)"
    then show ?thesis using core [of status content data "portalRecords data"] by simp
  qed
  then show ?thesis by (simp add: Let_def)
qed

text \<open>The welcome comment is dated forty seconds after the instant at which all
  messages are marked; it was loaded then, so it stays read on the next load.\<close>

theorem mark_all_then_reload_witness:
  "summary welcome_loaded = [(JStr ''guid-1'', JDate 1763546400000, JBool False)]
   \<and> (1763546360000 :: int) < 1763546400000
   \<and> unreadCount (fst (loadMessages (operations_config JNull True True) hosted (Inr ''token'')
        (api_response welcome_records) 1763546380000
        (fst (markAllMessagesAsRead 1763546360000 welcome_loaded None))
        (snd (markAllMessagesAsRead 1763546360000 welcome_loaded None)))) = 0
   \<and> list_all (\<lambda>m. read m = JBool True)
        (messages (fst (loadMessages (operations_config JNull True True) hosted (Inr ''token'')
          (api_response welcome_records) 1763546380000
          (fst (markAllMessagesAsRead 1763546360000 welcome_loaded None))
          (snd (markAllMessagesAsRead 1763546360000 welcome_loaded None)))))"
proof -
  let ?cfg = "operations_config JNull True True"
  let ?r = "portal_comment ''guid-1'' (JDate 1763546400000)
              [staff_party, contact_party 2 ''contact-7'' ''John Doe''] []"
  have s: "summary welcome_loaded = [(JStr ''guid-1'', JDate 1763546400000, JBool False)]"
    by (simp add: welcome_loaded_def welcome_records_def load_simps state_simps mapper_simps
                  example_simps js_simps)
  obtain M where ms: "messages welcome_loaded = [M]" and d: "date M = JDate 1763546400000"
    using s by (auto simp: summary_def)
  have f: "getFieldName ?cfg ''hasread'' = Inr (JStr ''msfed_hasread'')"
    by (simp add: getFieldName_def operations_config_def js_simps)
  have l: "\<not> isLegacy ?r"
    by (simp add: isLegacy_def example_simps js_simps)
  have g: "nullish (js_get ?r ''msfed_hasread'')"
    by (simp add: portal_comment_def js_simps)
  have c: "js_get ?r ''createdon'' = JDate 1763546400000"
    by (simp add: portal_comment_def js_get_def)
  have rows: "\<And>status content data rs.
      api_response welcome_records = Response status content (Some data)
      \<Longrightarrow> localRecords data = JArr rs \<or> portalRecords data = JArr rs \<Longrightarrow> rs = [?r]"
    by (auto simp: api_response_def welcome_records_def localRecords_def portalRecords_def js_simps)
  have recs: "\<forall>status content data rs r.
        api_response welcome_records = Response status content (Some data)
      \<and> (localRecords data = JArr rs \<or> portalRecords data = JArr rs) \<and> r \<in> set rs
    \<longrightarrow> \<not> isLegacy r
      \<and> (\<forall>fld. getFieldName ?cfg ''hasread'' = Inr fld \<longrightarrow> nullish (js_get r (to_string fld)))
      \<and> (\<exists>t. js_get r ''createdon'' = JDate t
             \<and> (t \<le> 1763546360000
                \<or> ((\<forall>x \<in> set (messages welcome_loaded). truthy (date x)
                        \<longrightarrow> (\<exists>u. date x = JDate u))
                   \<and> (\<exists>x \<in> set (messages welcome_loaded). date x = JDate t))))"
  proof (intro allI impI, elim conjE)
    fix status content data rs r
    assume "api_response welcome_records = Response status content (Some data)"
      and "localRecords data = JArr rs \<or> portalRecords data = JArr rs" and "r \<in> set rs"
    then have "r = ?r" using rows by force
    then show "\<not> isLegacy r
      \<and> (\<forall>fld. getFieldName ?cfg ''hasread'' = Inr fld \<longrightarrow> nullish (js_get r (to_string fld)))
      \<and> (\<exists>t. js_get r ''createdon'' = JDate t
             \<and> (t \<le> 1763546360000
                \<or> ((\<forall>x \<in> set (messages welcome_loaded). truthy (date x)
                        \<longrightarrow> (\<exists>u. date x = JDate u))
                   \<and> (\<exists>x \<in> set (messages welcome_loaded). date x = JDate t))))"
      using l g c by (simp add: f ms d)
  qed
  show ?thesis
    using s mark_all_then_reload [OF recs, where loc = hosted and token = "Inr ''token''"
                and now' = 1763546380000 and store = None]
    by (simp add: Let_def list_all_iff)
qed

subsection \<open>The persisted instant never moves backward, except in \<^verbatim>\<open>markAllMessagesAsRead\<close>\<close>

lemma loadRecords_monotone:
  "lastCheckedDate store \<le> lastCheckedDate (snd (loadRecords config now records st store))"
proof (cases "mapPortalDataToMessages config store now records")
  case (Inl e)
  then show ?thesis by (simp add: loadRecords_failed)
next
  case (Inr msgs)
  then show ?thesis
    using processMessages_monotone [of store "st\<lparr> messages := msgs \<rparr>"]
    by (cases "processMessages (st\<lparr> messages := msgs \<rparr>) store") (simp add: loadRecords_def)
qed

lemma loadMessages_monotone:
  "lastCheckedDate store \<le> lastCheckedDate (snd (loadMessages config loc token resp now st store))"
  using loadMessages_cases [of config loc token resp now st store]
  by (auto simp: loadRecords_monotone)

lemma markMessageAsRead_monotone:
  "lastCheckedDate store
     \<le> lastCheckedDate (snd (fst (markMessageAsRead config loc token resp messageId st store)))"
proof -
  let ?st1 = "st\<lparr> messages := setRead messageId (messages st) \<rparr>"
  let ?upd = "updateMessageReadStatus config loc token resp (messages ?st1) store messageId (JBool True)"
  have "lastCheckedDate store \<le> lastCheckedDate (snd (processMessages ?st1 (fst ?upd)))"
    using updateMessageReadStatus_monotone
            [of store config loc token resp "messages ?st1" messageId "JBool True"]
          processMessages_monotone [of "fst ?upd" ?st1]
    by simp
  then show ?thesis
    by (simp add: markMessageAsRead_def Let_def split: option.splits)
qed

text \<open>
  C2 asks that no operation stores an instant earlier than the stored one. A load and
  \<^verbatim>\<open>markMessageAsRead\<close> only ever write a later instant, as the lemmas above say;
  \<^verbatim>\<open>markAllMessagesAsRead\<close> writes the clock without comparing. Here the client's
  clock is a minute behind the server's: a load brings a comment that the server has
  flagged as read, and \<^verbatim>\<open>processMessages\<close> advances the entry to the comment's date;
  the next load brings nothing; \<^verbatim>\<open>markAllMessagesAsRead\<close> then stores the clock,
  forty seconds before the stored instant.
\<close>

theorem mark_all_moves_backward:
  "snd (loadMessages (operations_config JNull True True) hosted (Inr ''token'')
          (api_response (JArr [flagged_comment (JBool True)])) 1763546340000 initial_state None)
     = Some 1763546400000
   \<and> loadMessages (operations_config JNull True True) hosted (Inr ''token'')
        (api_response (JArr [])) 1763546350000
        (fst (loadMessages (operations_config JNull True True) hosted (Inr ''token'')
                (api_response (JArr [flagged_comment (JBool True)])) 1763546340000 initial_state None))
        (Some 1763546400000)
     = (\<lparr> messages = [], unreadCount = 0, showArchived = False, isLoading = False,
          isLoaded = True \<rparr>, Some 1763546400000)
   \<and> snd (markAllMessagesAsRead 1763546360000
        \<lparr> messages = [], unreadCount = 0, showArchived = False, isLoading = False,
          isLoaded = True \<rparr> (Some 1763546400000))
     = Some 1763546360000"
  by (simp add: flagged_comment_def load_simps state_simps mapper_simps example_simps js_simps)

end
